theory Spec2Isabelle
  imports Main "HOL-Library.Sublist"
begin

text \<open>
  The request-handling pipeline of the Bun adapter for NestJS: the Express-style objects
  of \<^verbatim>\<open>src/express-compat.ts\<close>, the Fastify-style objects, hooks and plugins of
  \<^verbatim>\<open>src/fastify-compat.ts\<close>, and the adapter class \<^verbatim>\<open>BunAdapter\<close> of \<^verbatim>\<open>bun-adapter.ts\<close>
  (the file \<^verbatim>\<open>unnamed/part_004\<close>, to which the line numbers below refer).
\<close>

section \<open>JavaScript string primitives used by the adapter\<close>

text \<open>
  Strings are character lists. The functions below model the JavaScript string methods
  the sources call: \<^verbatim>\<open>split\<close> with a one-character separator, \<^verbatim>\<open>join\<close>,
  \<^verbatim>\<open>trim\<close>, \<^verbatim>\<open>startsWith\<close>, \<^verbatim>\<open>endsWith\<close> and \<^verbatim>\<open>includes\<close>.
\<close>

fun split_on :: "char \<Rightarrow> string \<Rightarrow> string list" where
  "split_on c [] = [[]]"
| "split_on c (x # xs) =
     (if x = c then [] # split_on c xs
      else (case split_on c xs of
              [] \<Rightarrow> [[x]]
            | y # ys \<Rightarrow> (x # y) # ys))"

fun join :: "string \<Rightarrow> string list \<Rightarrow> string" where
  "join sep [] = []"
| "join sep [x] = x"
| "join sep (x # y # ys) = x @ sep @ join sep (y # ys)"

definition isSpace :: "char \<Rightarrow> bool" where
  "isSpace c \<longleftrightarrow> c \<in> set [CHR '' '', CHR 0x09, CHR 0x0A, CHR 0x0B, CHR 0x0C, CHR 0x0D, CHR 0xA0]"

definition trim :: "string \<Rightarrow> string" where
  "trim s = rev (dropWhile isSpace (rev (dropWhile isSpace s)))"

definition startsWith :: "string \<Rightarrow> string \<Rightarrow> bool" where
  "startsWith s p \<longleftrightarrow> take (length p) s = p"


fun str_includes :: "string \<Rightarrow> string \<Rightarrow> bool" where
  "str_includes [] p = (p = [])"
| "str_includes (x # xs) p = (startsWith (x # xs) p \<or> str_includes xs p)"

section \<open>JavaScript values, JSON text, headers and responses\<close>

text \<open>
  The values that travel through the adapter as \<^verbatim>\<open>unknown\<close>: bodies, payloads, thrown
  values and the arguments of \<^verbatim>\<open>next\<close> and \<^verbatim>\<open>done\<close>. \<open>JBuf\<close> is a Node
  \<^verbatim>\<open>Buffer\<close>, \<open>JError m\<close> an \<^verbatim>\<open>Error\<close> instance with message \<open>m\<close>; numbers are
  integers. Other typed arrays, streams, blobs and functions are outside this value model.
\<close>

datatype jsval =
    JUndefined
  | JNull
  | JBool bool
  | JNum int
  | JStr string
  | JBuf "nat list"
  | JArr "jsval list"
  | JObj "(string \<times> jsval) list"
  | JError string

fun truthy :: "jsval \<Rightarrow> bool" where
  "truthy JUndefined = False"
| "truthy JNull = False"
| "truthy (JBool b) = b"
| "truthy (JNum n) = (n \<noteq> 0)"
| "truthy (JStr s) = (s \<noteq> [])"
| "truthy _ = True"

fun isError :: "jsval \<Rightarrow> bool" where
  "isError (JError m) = True"
| "isError _ = False"

fun isString :: "jsval \<Rightarrow> bool" where
  "isString (JStr s) = True"
| "isString _ = False"

fun isBuffer :: "jsval \<Rightarrow> bool" where
  "isBuffer (JBuf b) = True"
| "isBuffer _ = False"

text \<open>\<^verbatim>\<open>typeof v === "object"\<close>; \<^verbatim>\<open>typeof null\<close> is \<^verbatim>\<open>"object"\<close> too.\<close>

fun isObject :: "jsval \<Rightarrow> bool" where
  "isObject JUndefined = False"
| "isObject (JBool b) = False"
| "isObject (JNum n) = False"
| "isObject (JStr s) = False"
| "isObject _ = True"

text \<open>\<^verbatim>\<open>v !== undefined && v !== null\<close>\<close>

fun present :: "jsval \<Rightarrow> bool" where
  "present JUndefined = False"
| "present JNull = False"
| "present _ = True"

text \<open>\<^verbatim>\<open>error instanceof Error ? error.message : "Internal Server Error"\<close>\<close>

fun messageOr :: "jsval \<Rightarrow> string" where
  "messageOr (JError m) = m"
| "messageOr _ = ''Internal Server Error''"

definition digit :: "nat \<Rightarrow> char" where
  "digit n = ''0123456789'' ! (n mod 10)"

function show_nat :: "nat \<Rightarrow> string" where
  "show_nat n = (if n < 10 then [digit n] else show_nat (n div 10) @ [digit n])"
  by pat_completeness auto
termination
  by (relation "measure id") auto

definition show_int :: "int \<Rightarrow> string" where
  "show_int i = (if i < 0 then CHR ''-'' # show_nat (nat (- i)) else show_nat (nat i))"

text \<open>
  \<^verbatim>\<open>JSON.stringify\<close> on the value model. A string is quoted with \<^verbatim>\<open>"\<close> and \<^verbatim>\<open>\\<close>
  escaped (control characters are outside the model); \<^verbatim>\<open>undefined\<close> has no JSON text
  (the result is \<^verbatim>\<open>undefined\<close>), is dropped from an object and printed as \<^verbatim>\<open>null\<close>
  in an array; a Buffer prints through its \<^verbatim>\<open>toJSON\<close>; an Error has no enumerable
  property.
\<close>

fun escapeChar :: "char \<Rightarrow> string" where
  "escapeChar c = (if c = CHR 0x22 then [CHR 0x5C, CHR 0x22] else if c = CHR 0x5C then [CHR 0x5C, CHR 0x5C] else [c])"

definition quote :: "string \<Rightarrow> string" where
  "quote s = CHR 0x22 # concat (map escapeChar s) @ [CHR 0x22]"

fun json_text :: "jsval \<Rightarrow> string option"
  and json_elems :: "jsval list \<Rightarrow> string list"
  and json_fields :: "(string \<times> jsval) list \<Rightarrow> string list" where
  "json_text JUndefined = None"
| "json_text JNull = Some ''null''"
| "json_text (JBool b) = Some (if b then ''true'' else ''false'')"
| "json_text (JNum n) = Some (show_int n)"
| "json_text (JStr s) = Some (quote s)"
| "json_text (JBuf bs) = Some (''{'' @ quote ''type'' @ '':'' @ quote ''Buffer'' @ '','' @ quote ''data'' @ '':[''
                               @ join '','' (map show_nat bs) @ '']}'')"
| "json_text (JArr vs) = Some (''['' @ join '','' (json_elems vs) @ '']'')"
| "json_text (JObj kvs) = Some (''{'' @ join '','' (json_fields kvs) @ ''}'')"
| "json_text (JError m) = Some ''{}''"
| "json_elems [] = []"
| "json_elems (v # vs) = (case json_text v of None \<Rightarrow> ''null'' | Some t \<Rightarrow> t) # json_elems vs"
| "json_fields [] = []"
| "json_fields ((k, v) # kvs) =
     (case json_text v of None \<Rightarrow> [] | Some t \<Rightarrow> [quote k @ '':'' @ t]) @ json_fields kvs"

definition JSON_stringify :: "jsval \<Rightarrow> jsval" where
  "JSON_stringify v = (case json_text v of None \<Rightarrow> JUndefined | Some t \<Rightarrow> JStr t)"

text \<open>\<^verbatim>\<open>String(v)\<close>. A Buffer prints its bytes as characters.\<close>

fun String_of :: "jsval \<Rightarrow> string"
  and String_elems :: "jsval list \<Rightarrow> string list" where
  "String_of JUndefined = ''undefined''"
| "String_of JNull = ''null''"
| "String_of (JBool b) = (if b then ''true'' else ''false'')"
| "String_of (JNum n) = show_int n"
| "String_of (JStr s) = s"
| "String_of (JBuf bs) = map char_of bs"
| "String_of (JArr vs) = join '','' (String_elems vs)"
| "String_of (JObj kvs) = ''[object Object]''"
| "String_of (JError m) = (if m = [] then ''Error'' else ''Error: '' @ m)"
| "String_elems [] = []"
| "String_elems (v # vs) = (if present v then String_of v else []) # String_elems vs"

text \<open>
  The platform's \<^verbatim>\<open>Headers\<close>: names are case-insensitive, kept here in lower case;
  \<^verbatim>\<open>set\<close> replaces, \<^verbatim>\<open>append\<close> joins with a comma, \<^verbatim>\<open>get\<close> of an absent name is
  \<^verbatim>\<open>null\<close> (\<open>None\<close>). Validation of names and values is the platform's and not modelled.
\<close>

type_synonym headers = "string \<rightharpoonup> string"

definition lowerChar :: "char \<Rightarrow> char" where
  "lowerChar c = (let n = (of_char c :: nat) in if 65 \<le> n \<and> n \<le> 90 then char_of (n + 32) else c)"

definition lower :: "string \<Rightarrow> string" where
  "lower s = map lowerChar s"

definition hset :: "string \<Rightarrow> string \<Rightarrow> headers \<Rightarrow> headers" where
  "hset name v hs = hs(lower name \<mapsto> v)"

definition hhas :: "headers \<Rightarrow> string \<Rightarrow> bool" where
  "hhas hs name \<longleftrightarrow> hs (lower name) \<noteq> None"

definition hget :: "headers \<Rightarrow> string \<Rightarrow> string option" where
  "hget hs name = hs (lower name)"

definition hdelete :: "string \<Rightarrow> headers \<Rightarrow> headers" where
  "hdelete name hs = hs(lower name := None)"

text \<open>
  A platform \<^verbatim>\<open>Response\<close> is recorded as what the adapter passes to its constructor:
  \<^verbatim>\<open>new Response(body, {status, statusText, headers})\<close>, with \<open>JNull\<close> for no body.
  \<^verbatim>\<open>Response.redirect(url, status)\<close> is a body-less response with a Location header.
  The range checks the platform makes on the status are not modelled.
\<close>

record response =
  status :: int
  statusText :: string
  rheaders :: headers
  rbody :: jsval

definition Response_redirect :: "string \<Rightarrow> int \<Rightarrow> response" where
  "Response_redirect url code =
     \<lparr>status = code, statusText = [], rheaders = hset ''Location'' url Map.empty, rbody = JNull\<rparr>"

section \<open>The Express response (express-compat.ts, createExpressResponse)\<close>

text \<open>
  The closure variables \<^verbatim>\<open>headers\<close>, \<^verbatim>\<open>statusCode\<close>, \<^verbatim>\<open>statusMessage\<close>, \<^verbatim>\<open>body\<close>,
  \<^verbatim>\<open>ended\<close> and \<^verbatim>\<open>headersSent\<close> are the fields of the record. The object's mirror
  properties \<^verbatim>\<open>_body\<close> and \<^verbatim>\<open>_ended\<close> are written by every method together with the variable
  they mirror, so one field stands for both. An absent optional argument is \<open>JUndefined\<close>.
\<close>

record express_response =
  headers :: headers
  statusCode :: int
  statusMessage :: string
  body :: jsval
  ended :: bool
  headersSent :: bool

definition createExpressResponse :: express_response where
  "createExpressResponse =
     \<lparr>headers = Map.empty, statusCode = 200, statusMessage = ''OK'', body = JNull,
      ended = False, headersSent = False\<rparr>"



definition express_status :: "int \<Rightarrow> express_response \<Rightarrow> express_response" where
  "express_status code res = res\<lparr>statusCode := code\<rparr>"


definition express_json :: "jsval \<Rightarrow> express_response \<Rightarrow> express_response" where
  "express_json d res =
     res\<lparr>headers := hset ''Content-Type'' ''application/json'' (headers res),
         body := JSON_stringify d, ended := True\<rparr>"

definition express_send :: "jsval \<Rightarrow> express_response \<Rightarrow> express_response" where
  "express_send d res =
     (if isString d then
        res\<lparr>headers := (if \<not> hhas (headers res) ''Content-Type''
                         then hset ''Content-Type'' ''text/html'' (headers res) else headers res),
            body := d, ended := True\<rparr>
      else if isBuffer d then
        res\<lparr>headers := (if \<not> hhas (headers res) ''Content-Type''
                         then hset ''Content-Type'' ''application/octet-stream'' (headers res)
                         else headers res),
            body := d, ended := True\<rparr>
      else if isObject d then
        res\<lparr>headers := hset ''Content-Type'' ''application/json'' (headers res),
            body := JSON_stringify d, ended := True\<rparr>
      else
        res\<lparr>body := JStr (String_of d), ended := True\<rparr>)"


definition express_set :: "string \<Rightarrow> string \<Rightarrow> express_response \<Rightarrow> express_response" where
  "express_set field v res = res\<lparr>headers := hset field v (headers res)\<rparr>"


text \<open>
  \<^verbatim>\<open>_buildResponse\<close> marks the headers as sent and returns the platform response: a
  redirect when a Location header is set and the status lies in 300..399. On the value
  model every present body that is not a string or a Buffer is serialised.
\<close>

definition express_buildResponse :: "express_response \<Rightarrow> response \<times> express_response" where
  "express_buildResponse res =
     (let res' = res\<lparr>headersSent := True\<rparr>
      in case (if statusCode res \<ge> 300 \<and> statusCode res < 400 then hget (headers res) ''Location'' else None) of
           Some url \<Rightarrow> (Response_redirect url (statusCode res), res')
         | None \<Rightarrow>
           (\<lparr>status = statusCode res, statusText = statusMessage res, rheaders = headers res,
             rbody = (if present (body res) then
                        (if isString (body res) \<or> isBuffer (body res) then body res
                         else JSON_stringify (body res))
                      else JNull)\<rparr>, res'))"

section \<open>The Fastify reply (fastify-compat.ts, createFastifyReply)\<close>

record fastify_reply =
  fheaders :: headers
  fstatusCode :: int
  fbody :: jsval
  sent :: bool
  serializer :: "(jsval \<Rightarrow> string) option"

definition createFastifyReply :: fastify_reply where
  "createFastifyReply =
     \<lparr>fheaders = Map.empty, fstatusCode = 200, fbody = JNull, sent = False, serializer = None\<rparr>"

definition reply_code :: "int \<Rightarrow> fastify_reply \<Rightarrow> fastify_reply" where
  "reply_code code r = r\<lparr>fstatusCode := code\<rparr>"

definition reply_header :: "string \<Rightarrow> string \<Rightarrow> fastify_reply \<Rightarrow> fastify_reply" where
  "reply_header k v r = r\<lparr>fheaders := hset k v (fheaders r)\<rparr>"

text \<open>\<^verbatim>\<open>send\<close>: a reply already sent only warns on the console and returns.\<close>

definition reply_send :: "jsval \<Rightarrow> fastify_reply \<Rightarrow> fastify_reply" where
  "reply_send payload r =
     (if sent r then r
      else if payload \<noteq> JUndefined then r\<lparr>fbody := payload, sent := True\<rparr>
      else r\<lparr>sent := True\<rparr>)"

definition reply_redirect :: "int option \<Rightarrow> string \<Rightarrow> fastify_reply \<Rightarrow> fastify_reply" where
  "reply_redirect st url r =
     (case st of
        Some code \<Rightarrow>
          if url \<noteq> [] then
            r\<lparr>fstatusCode := code, fheaders := hset ''Location'' url (fheaders r), sent := True\<rparr>
          else
            r\<lparr>fstatusCode := 302, fheaders := hset ''Location'' (show_int code) (fheaders r), sent := True\<rparr>
      | None \<Rightarrow>
          r\<lparr>fstatusCode := 302, fheaders := hset ''Location'' url (fheaders r), sent := True\<rparr>)"

definition reply_callNotFound :: "fastify_reply \<Rightarrow> fastify_reply" where
  "reply_callNotFound r =
     r\<lparr>fstatusCode := 404,
       fbody := JObj [(''statusCode'', JNum 404), (''error'', JStr ''Not Found''),
                      (''message'', JStr ''Route not found'')],
       sent := True\<rparr>"

text \<open>
  \<^verbatim>\<open>_buildResponse\<close> of the reply fills in a default Content-Type when it passes a string,
  a Buffer or serialised JSON on, so it returns the reply as well.
\<close>

definition defaultType :: "string \<Rightarrow> fastify_reply \<Rightarrow> fastify_reply" where
  "defaultType t r =
     (if \<not> hhas (fheaders r) ''Content-Type'' then r\<lparr>fheaders := hset ''Content-Type'' t (fheaders r)\<rparr> else r)"

definition reply_buildResponse :: "fastify_reply \<Rightarrow> response \<times> fastify_reply" where
  "reply_buildResponse r =
     (case (if fstatusCode r \<ge> 300 \<and> fstatusCode r < 400 then hget (fheaders r) ''Location'' else None) of
        Some url \<Rightarrow> (Response_redirect url (fstatusCode r), r)
      | None \<Rightarrow>
        (let (responseBody, r') =
           (if present (fbody r) then
              (case serializer r of
                 Some f \<Rightarrow> (JStr (f (fbody r)), r)
               | None \<Rightarrow>
                   if isString (fbody r) then (fbody r, defaultType ''text/plain; charset=utf-8'' r)
                   else if isBuffer (fbody r) then (fbody r, defaultType ''application/octet-stream'' r)
                   else (JSON_stringify (fbody r), defaultType ''application/json; charset=utf-8'' r))
            else (JNull, r))
         in (\<lparr>status = fstatusCode r, statusText = [], rheaders = fheaders r', rbody = responseBody\<rparr>, r')))"

section \<open>Request views: cookies and query parameters\<close>

text \<open>
  \<^verbatim>\<open>createExpressRequest\<close> (express-compat.ts, lines 135-145) parses the Cookie header:
  the header is split on \<^verbatim>\<open>;\<close>, every piece is trimmed and split on \<^verbatim>\<open>=\<close>; the first
  part is the name, the remaining parts are joined with \<^verbatim>\<open>=\<close> again. A piece with an
  empty name is skipped, and so is an absent or empty header.
\<close>

definition setCookie :: "string \<Rightarrow> (string \<rightharpoonup> string) \<Rightarrow> (string \<rightharpoonup> string)" where
  "setCookie cookie cookies =
     (case split_on CHR ''='' (trim cookie) of
        [] \<Rightarrow> cookies
      | name # rest \<Rightarrow> if name \<noteq> [] then cookies(name \<mapsto> join ''='' rest) else cookies)"

definition parseCookies :: "string option \<Rightarrow> (string \<rightharpoonup> string)" where
  "parseCookies cookieHeader =
     (case cookieHeader of
        None \<Rightarrow> Map.empty
      | Some h \<Rightarrow> if h = [] then Map.empty else fold setCookie (split_on CHR '';'' h) Map.empty)"



text \<open>
  Both request views fill the query record from the URL's search parameters
  (express-compat.ts, lines 129-133; fastify-compat.ts, lines 191-195):
  \<^verbatim>\<open>url.searchParams.forEach((value, key) => { query[key] = value; })\<close>.
  The parsed search parameters are the platform's; they are given here as the list of
  (key, value) pairs in the order \<^verbatim>\<open>forEach\<close> visits them, which is the order of the
  query string.
\<close>

definition parseQuery :: "(string \<times> string) list \<Rightarrow> (string \<rightharpoonup> string)" where
  "parseQuery searchParams = fold (\<lambda>(key, v) query. query(key \<mapsto> v)) searchParams Map.empty"

section \<open>Awaited calls\<close>

text \<open>
  What \<^verbatim>\<open>await f(...)\<close> can do: yield a value, throw (a synchronous throw or a rejected
  promise), or never continue because the promise never settles.
  \<open>swallow\<close> is \<^verbatim>\<open>try { return await x } catch { return undefined }\<close>.
\<close>

datatype 'a settle = Returns 'a | Throws jsval | Pending

fun map_settle :: "('a \<Rightarrow> 'b) \<Rightarrow> 'a settle \<Rightarrow> 'b settle" where
  "map_settle f (Returns a) = Returns (f a)"
| "map_settle f (Throws e) = Throws e"
| "map_settle f Pending = Pending"

fun swallow :: "jsval settle \<Rightarrow> jsval settle" where
  "swallow (Returns v) = Returns v"
| "swallow (Throws e) = Returns JUndefined"
| "swallow Pending = Pending"

section \<open>The raw request and its body (bun-adapter.ts, parseRequestBody)\<close>

text \<open>
  The platform's \<^verbatim>\<open>Request\<close>, as far as the adapter reads it: the method, the path and
  the search parameters of its URL, the headers, and what its body readers
  \<^verbatim>\<open>json()\<close>, \<^verbatim>\<open>text()\<close> and \<^verbatim>\<open>formData()\<close> do when awaited. \<open>req_textParams\<close> are
  the pairs that \<^verbatim>\<open>new URLSearchParams(text)\<close> iterates over for the text of the body.
\<close>

record bun_request =
  req_method :: string
  req_pathname :: string
  req_searchParams :: "(string \<times> string) list"
  req_headers :: headers
  req_json :: "jsval settle"
  req_text :: "string settle"
  req_textParams :: "(string \<times> string) list"
  req_formData :: "(string \<times> jsval) list settle"

text \<open>\<^verbatim>\<open>body[key] = value\<close> on an object kept as an association list.\<close>

fun objAssign :: "string \<Rightarrow> jsval \<Rightarrow> (string \<times> jsval) list \<Rightarrow> (string \<times> jsval) list" where
  "objAssign k v [] = [(k, v)]"
| "objAssign k v ((k', v') # kvs) = (if k = k' then (k, v) # kvs else (k', v') # objAssign k v kvs)"

definition parseRequestBody :: "bun_request \<Rightarrow> jsval settle" where
  "parseRequestBody bunRequest =
     (let contentType = (case hget (req_headers bunRequest) ''content-type'' of None \<Rightarrow> [] | Some c \<Rightarrow> c)
      in if str_includes contentType ''application/json'' then
           swallow (req_json bunRequest)
         else if str_includes contentType ''application/x-www-form-urlencoded'' then
           swallow (map_settle
             (\<lambda>text. JObj (fold (\<lambda>(key, v). objAssign key (JStr v)) (req_textParams bunRequest) []))
             (req_text bunRequest))
         else if str_includes contentType ''multipart/form-data'' then
           swallow (map_settle
             (\<lambda>formData. JObj (fold (\<lambda>(key, v). objAssign key v) formData []))
             (req_formData bunRequest))
         else if str_includes contentType ''text/'' then
           swallow (map_settle JStr (req_text bunRequest))
         else Returns JUndefined)"

section \<open>Paths: global prefix, middleware scope, route patterns (bun-adapter.ts)\<close>

text \<open>\<^verbatim>\<open>s.replace(/\/+/g, "/")\<close>: every run of slashes becomes one slash.\<close>

fun collapseSlashes :: "string \<Rightarrow> string" where
  "collapseSlashes (a # b # cs) =
     (if a = CHR ''/'' \<and> b = CHR ''/'' then collapseSlashes (b # cs) else a # collapseSlashes (b # cs))"
| "collapseSlashes cs = cs"

definition leadingSlash :: "string \<Rightarrow> string" where
  "leadingSlash path = (if startsWith path ''/'' then path else ''/'' @ path)"

definition buildPath :: "string \<Rightarrow> string \<Rightarrow> string" where
  "buildPath globalPrefix path =
     (let normalizedPath = leadingSlash path
      in if globalPrefix \<noteq> [] then collapseSlashes (leadingSlash globalPrefix @ normalizedPath)
         else normalizedPath)"

definition pathMatchesMiddleware :: "string \<Rightarrow> string \<Rightarrow> bool" where
  "pathMatchesMiddleware requestPath middlewarePath =
     (if middlewarePath = ''/'' \<or> middlewarePath = [] then True
      else (let normalizedMiddlewarePath = leadingSlash middlewarePath
            in requestPath = normalizedMiddlewarePath
               \<or> startsWith requestPath (normalizedMiddlewarePath @ ''/'')))"

text \<open>
  \<^verbatim>\<open>pathToRegex\<close> builds the source text of a regular expression: a trailing \<^verbatim>\<open>*\<close> becomes
  the group \<^verbatim>\<open>(.*)\<close>, every \<^verbatim>\<open>:name\<close> (\<^verbatim>\<open>/:([a-zA-Z0-9_]+)/g\<close>) becomes the group
  \<^verbatim>\<open>([^/]+)\<close> and its name is pushed on \<^verbatim>\<open>paramNames\<close>; the pattern is that text between
  \<^verbatim>\<open>^\<close> and \<^verbatim>\<open>$\<close>. The compiled pattern is kept as the list of its pieces: a literal
  character, a parameter group, the wildcard group. Any other character of the path goes
  into the expression as it is, so a path that contains a character with a meaning of its
  own in a regular expression is not a pattern of this form: for it the model gives
  \<open>None\<close> and does not say what the route matches.
\<close>

datatype tok = Lit char | Param | Wild





text \<open>
  \<^verbatim>\<open>pathname.match(pattern)\<close> for a compiled pattern: \<open>None\<close> for \<^verbatim>\<open>null\<close>, otherwise the
  captured groups \<^verbatim>\<open>match[1]\<close>, \<^verbatim>\<open>match[2]\<close>, ... A group is greedy: the longest run is tried
  first and given back one character at a time. \<^verbatim>\<open>[^/]+\<close> takes at least one character
  other than a slash; \<^verbatim>\<open>.*\<close> takes any characters but line terminators.
\<close>

fun tryLengths :: "(string \<Rightarrow> string list option) \<Rightarrow> string \<Rightarrow> nat \<Rightarrow> nat \<Rightarrow> string list option" where
  "tryLengths rest s lo 0 =
     (if lo = 0 then (case rest s of Some gs \<Rightarrow> Some ([] # gs) | None \<Rightarrow> None) else None)"
| "tryLengths rest s lo (Suc k) =
     (if Suc k < lo then None
      else (case rest (drop (Suc k) s) of
              Some gs \<Rightarrow> Some (take (Suc k) s # gs)
            | None \<Rightarrow> tryLengths rest s lo k))"

definition isLineTerminator :: "char \<Rightarrow> bool" where
  "isLineTerminator c \<longleftrightarrow> c = CHR 0x0A \<or> c = CHR 0x0D"

primrec matchToks :: "tok list \<Rightarrow> string \<Rightarrow> string list option" where
  "matchToks [] = (\<lambda>s. if s = [] then Some [] else None)"
| "matchToks (t # ts) =
     (case t of
        Lit c \<Rightarrow> (\<lambda>s. case s of [] \<Rightarrow> None | d # s' \<Rightarrow> if d = c then matchToks ts s' else None)
      | Param \<Rightarrow> (\<lambda>s. tryLengths (matchToks ts) s 1 (length (takeWhile (\<lambda>d. d \<noteq> CHR ''/'') s)))
      | Wild \<Rightarrow> (\<lambda>s. tryLengths (matchToks ts) s 0 (length (takeWhile (\<lambda>d. \<not> isLineTerminator d) s))))"

definition upperChar :: "char \<Rightarrow> char" where
  "upperChar c = (let n = (of_char c :: nat) in if 97 \<le> n \<and> n \<le> 122 then char_of (n - 32) else c)"

definition upper :: "string \<Rightarrow> string" where
  "upper s = map upperChar s"

text \<open>
  A registered route. The handler is whatever the application registered; routing does
  not look at it.
\<close>

record 'h route =
  route_path :: string
  route_method :: string
  route_handler :: 'h
  pathPattern :: "tok list"
  paramNames :: "string list"

text \<open>
  \<^verbatim>\<open>route.paramNames.forEach((name, index) => { params[name] = match[index + 1]; })\<close>.
  A compiled pattern has at least as many groups as names.
\<close>

definition bindParams :: "string list \<Rightarrow> string list \<Rightarrow> (string \<rightharpoonup> string)" where
  "bindParams names groups = fold (\<lambda>(name, g) params. params(name \<mapsto> g)) (zip names groups) Map.empty"

text \<open>The routing loop at the head of \<^verbatim>\<open>handleRequest\<close> (lines 356-373).\<close>

fun findRoute :: "'h route list \<Rightarrow> string \<Rightarrow> string \<Rightarrow> ('h route \<times> (string \<rightharpoonup> string)) option" where
  "findRoute [] method pathname = None"
| "findRoute (r # routes) method pathname =
     (if route_method r \<noteq> method \<and> route_method r \<noteq> ''ALL'' then findRoute routes method pathname
      else (case matchToks (pathPattern r) pathname of
              Some groups \<Rightarrow> Some (r, bindParams (paramNames r) groups)
            | None \<Rightarrow> findRoute routes method pathname))"



section \<open>Request views and application callbacks\<close>

text \<open>
  The two request views, with the fields the dispatcher fills in; the further fields
  (\<^verbatim>\<open>ip\<close>, \<^verbatim>\<open>hostname\<close>, the content-negotiation helpers, ...) play no part in dispatching.
\<close>

record express_request =
  ereq_method :: string
  ereq_path :: string
  ereq_params :: "string \<rightharpoonup> string"
  ereq_query :: "string \<rightharpoonup> string"
  ereq_cookies :: "string \<rightharpoonup> string"
  ereq_body :: jsval

record fastify_request =
  freq_method :: string
  freq_routerPath :: string
  freq_params :: "string \<rightharpoonup> string"
  freq_query :: "string \<rightharpoonup> string"
  freq_body :: jsval

definition createExpressRequest :: "bun_request \<Rightarrow> (string \<rightharpoonup> string) \<Rightarrow> express_request" where
  "createExpressRequest bunRequest params =
     \<lparr>ereq_method = req_method bunRequest, ereq_path = req_pathname bunRequest, ereq_params = params,
      ereq_query = parseQuery (req_searchParams bunRequest),
      ereq_cookies = parseCookies (hget (req_headers bunRequest) ''cookie''),
      ereq_body = JUndefined\<rparr>"

definition createFastifyRequest :: "bun_request \<Rightarrow> (string \<rightharpoonup> string) \<Rightarrow> fastify_request" where
  "createFastifyRequest bunRequest params =
     \<lparr>freq_method = req_method bunRequest, freq_routerPath = req_pathname bunRequest,
      freq_params = params, freq_query = parseQuery (req_searchParams bunRequest),
      freq_body = JUndefined\<rparr>"

text \<open>
  A callback of the application is a function of the state it can reach: the response
  object it is handed and the application's own state \<open>'u\<close> (whatever its callbacks
  share outside the adapter). It returns what it signalled and the state it leaves.

  An Express middleware or route handler signals through \<^verbatim>\<open>next\<close> (the list holds the
  argument of every call, \<open>JUndefined\<close> for \<^verbatim>\<open>next()\<close>) and through the way the awaited
  call ends. A route handler's return value may be a platform \<^verbatim>\<open>Response\<close>.
\<close>

datatype ret = RVal jsval | RResponse response

type_synonym 'u express_state = "express_response \<times> 'u"

type_synonym 'u middleware =
  "express_request \<Rightarrow> 'u express_state \<Rightarrow> (jsval list \<times> ret settle) \<times> 'u express_state"

type_synonym 'u error_middleware =
  "jsval \<Rightarrow> express_request \<Rightarrow> 'u express_state \<Rightarrow> (jsval list \<times> ret settle) \<times> 'u express_state"

text \<open>
  The global error handler is called, not awaited: it returns (\<open>None\<close>) or throws
  (\<open>Some\<close> of what it threw).
\<close>

type_synonym 'u error_handler =
  "jsval \<Rightarrow> express_request \<Rightarrow> 'u express_state \<Rightarrow> jsval option \<times> 'u express_state"

text \<open>
  \<^verbatim>\<open>const next = (err) => { nextCalled = true; if (err) { nextError = err; } }\<close>:
  \<^verbatim>\<open>nextError\<close> is the last truthy argument, if any.
\<close>

definition nextError :: "jsval list \<Rightarrow> jsval" where
  "nextError args = (case filter truthy args of [] \<Rightarrow> JUndefined | e # es \<Rightarrow> last (e # es))"

text \<open>
  A Fastify hook is wrapped by the executor in a promise; what matters is what settles
  that promise first: the hook called \<^verbatim>\<open>done(err)\<close> (\<open>Done JUndefined\<close> for \<^verbatim>\<open>done()\<close>),
  the promise the hook returned resolved or rejected, the hook threw before any of this,
  or nothing ever happens. An \<^verbatim>\<open>onSend\<close> hook's \<^verbatim>\<open>done\<close> has the new payload as its second
  argument.
\<close>

datatype hook_signal = Done jsval | Resolved | Rejected jsval | Thrown jsval | Never

datatype send_signal = SDone jsval jsval | SResolved | SRejected jsval | SThrown jsval | SNever

type_synonym 'u reply_state = "fastify_reply \<times> 'u"

type_synonym 'u hook = "fastify_request \<Rightarrow> 'u reply_state \<Rightarrow> hook_signal \<times> 'u reply_state"

type_synonym 'u send_hook = "fastify_request \<Rightarrow> jsval \<Rightarrow> 'u reply_state \<Rightarrow> send_signal \<times> 'u reply_state"

type_synonym 'u error_hook = "fastify_request \<Rightarrow> jsval \<Rightarrow> 'u reply_state \<Rightarrow> hook_signal \<times> 'u reply_state"

section \<open>The hooks manager (fastify-compat.ts, FastifyHooksManager)\<close>

record 'u hooks_manager =
  onRequestHooks :: "'u hook list"
  preHandlerHooks :: "'u hook list"
  onSendHooks :: "'u send_hook list"
  onErrorHooks :: "'u error_hook list"
  onResponseHooks :: "'u hook list"

text \<open>\<^verbatim>\<open>executeHook\<close>: the value the wrapping promise resolves to, or its rejection.\<close>

fun executeHook :: "hook_signal \<Rightarrow> jsval settle" where
  "executeHook (Done err) = Returns err"
| "executeHook Resolved = Returns JUndefined"
| "executeHook (Rejected err) = Returns err"
| "executeHook (Thrown e) = Throws e"
| "executeHook Never = Pending"

text \<open>The loop shared, word for word, by \<^verbatim>\<open>executeOnRequest\<close> and \<^verbatim>\<open>executePreHandler\<close>.\<close>

fun executeUntilSent :: "'u hook list \<Rightarrow> fastify_request \<Rightarrow> 'u reply_state \<Rightarrow> jsval settle \<times> 'u reply_state" where
  "executeUntilSent [] request st = (Returns JUndefined, st)"
| "executeUntilSent (hook # hooks) request st =
     (case hook request st of
        (sig, st') \<Rightarrow>
          (case executeHook sig of
             Returns result \<Rightarrow>
               if isError result then (Returns result, st')
               else if sent (fst st') then (Returns JUndefined, st')
               else executeUntilSent hooks request st'
           | Throws e \<Rightarrow> (Throws e, st')
           | Pending \<Rightarrow> (Pending, st')))"

definition executeOnRequest :: "'u hooks_manager \<Rightarrow> fastify_request \<Rightarrow> 'u reply_state \<Rightarrow> jsval settle \<times> 'u reply_state" where
  "executeOnRequest hm = executeUntilSent (onRequestHooks hm)"

definition executePreHandler :: "'u hooks_manager \<Rightarrow> fastify_request \<Rightarrow> 'u reply_state \<Rightarrow> jsval settle \<times> 'u reply_state" where
  "executePreHandler hm = executeUntilSent (preHandlerHooks hm)"

text \<open>
  \<^verbatim>\<open>executeOnSend\<close>. One hook's promise resolves to \<^verbatim>\<open>{error, payload}\<close>:
  \<^verbatim>\<open>{error: err, payload: newPayload ?? currentPayload}\<close> from \<^verbatim>\<open>done\<close>,
  \<^verbatim>\<open>{payload: currentPayload}\<close> from a resolved promise, \<^verbatim>\<open>{error: err}\<close> from a rejected
  one. The result of the chain is the pair of the error (\<open>JUndefined\<close> for none) and the payload.
\<close>

fun sendHookResult :: "send_signal \<Rightarrow> jsval \<Rightarrow> (jsval \<times> jsval) settle" where
  "sendHookResult (SDone err newPayload) currentPayload =
     Returns (err, if present newPayload then newPayload else currentPayload)"
| "sendHookResult SResolved currentPayload = Returns (JUndefined, currentPayload)"
| "sendHookResult (SRejected err) currentPayload = Returns (err, JUndefined)"
| "sendHookResult (SThrown e) currentPayload = Throws e"
| "sendHookResult SNever currentPayload = Pending"

fun executeOnSendHooks :: "'u send_hook list \<Rightarrow> fastify_request \<Rightarrow> jsval \<Rightarrow> 'u reply_state
    \<Rightarrow> (jsval \<times> jsval) settle \<times> 'u reply_state" where
  "executeOnSendHooks [] request currentPayload st = (Returns (JUndefined, currentPayload), st)"
| "executeOnSendHooks (hook # hooks) request currentPayload st =
     (case hook request currentPayload st of
        (sig, st') \<Rightarrow>
          (case sendHookResult sig currentPayload of
             Returns (result_error, result_payload) \<Rightarrow>
               if truthy result_error then (Returns (result_error, currentPayload), st')
               else executeOnSendHooks hooks request
                      (if result_payload \<noteq> JUndefined then result_payload else currentPayload) st'
           | Throws e \<Rightarrow> (Throws e, st')
           | Pending \<Rightarrow> (Pending, st')))"

definition executeOnSend :: "'u hooks_manager \<Rightarrow> fastify_request \<Rightarrow> jsval \<Rightarrow> 'u reply_state
    \<Rightarrow> (jsval \<times> jsval) settle \<times> 'u reply_state" where
  "executeOnSend hm = executeOnSendHooks (onSendHooks hm)"

text \<open>
  \<^verbatim>\<open>executeOnError\<close>: \<^verbatim>\<open>done\<close> without an error marks the error as handled; a resolved or
  rejected promise only ends the wait.
\<close>

fun handledBy :: "hook_signal \<Rightarrow> bool" where
  "handledBy (Done err) = (\<not> truthy err)"
| "handledBy _ = False"

fun executeOnErrorHooks :: "'u error_hook list \<Rightarrow> fastify_request \<Rightarrow> jsval \<Rightarrow> 'u reply_state
    \<Rightarrow> bool settle \<times> 'u reply_state" where
  "executeOnErrorHooks [] request error st = (Returns False, st)"
| "executeOnErrorHooks (hook # hooks) request error st =
     (case hook request error st of
        (sig, st') \<Rightarrow>
          (case sig of
             Thrown e \<Rightarrow> (Throws e, st')
           | Never \<Rightarrow> (Pending, st')
           | _ \<Rightarrow> if handledBy sig \<or> sent (fst st') then (Returns True, st')
                  else executeOnErrorHooks hooks request error st'))"

definition executeOnError :: "'u hooks_manager \<Rightarrow> fastify_request \<Rightarrow> jsval \<Rightarrow> 'u reply_state
    \<Rightarrow> bool settle \<times> 'u reply_state" where
  "executeOnError hm = executeOnErrorHooks (onErrorHooks hm)"

fun executeOnResponseHooks :: "'u hook list \<Rightarrow> fastify_request \<Rightarrow> 'u reply_state \<Rightarrow> unit settle \<times> 'u reply_state" where
  "executeOnResponseHooks [] request st = (Returns (), st)"
| "executeOnResponseHooks (hook # hooks) request st =
     (case hook request st of
        (sig, st') \<Rightarrow>
          (case executeHook sig of
             Returns result \<Rightarrow> executeOnResponseHooks hooks request st'
           | Throws e \<Rightarrow> (Throws e, st')
           | Pending \<Rightarrow> (Pending, st')))"

definition executeOnResponse :: "'u hooks_manager \<Rightarrow> fastify_request \<Rightarrow> 'u reply_state \<Rightarrow> unit settle \<times> 'u reply_state" where
  "executeOnResponse hm = executeOnResponseHooks (onResponseHooks hm)"

section \<open>The middleware chains (bun-adapter.ts)\<close>

record mw_result =
  mw_error :: jsval
  completed :: bool

text \<open>
  \<^verbatim>\<open>executeMiddlewareChain\<close>, from its default start index 0. The first argument is the
  adapter's global prefix, which \<^verbatim>\<open>buildPath\<close> puts before every middleware path.
\<close>

fun executeMiddlewareChain :: "string \<Rightarrow> (string \<times> 'u middleware) list \<Rightarrow> express_request \<Rightarrow> string
    \<Rightarrow> 'u express_state \<Rightarrow> mw_result settle \<times> 'u express_state" where
  "executeMiddlewareChain gp [] req pathname st = (Returns \<lparr>mw_error = JUndefined, completed = False\<rparr>, st)"
| "executeMiddlewareChain gp ((mpath, handler) # rest) req pathname st =
     (if \<not> pathMatchesMiddleware pathname (buildPath gp mpath) then
        executeMiddlewareChain gp rest req pathname st
      else
        (case handler req st of
           ((args, Throws err), st') \<Rightarrow> (Returns \<lparr>mw_error = err, completed = False\<rparr>, st')
         | ((args, Pending), st') \<Rightarrow> (Pending, st')
         | ((args, Returns v), st') \<Rightarrow>
             if truthy (nextError args) then (Returns \<lparr>mw_error = nextError args, completed = False\<rparr>, st')
             else if ended (fst st') then (Returns \<lparr>mw_error = JUndefined, completed = True\<rparr>, st')
             else if args = [] then (Returns \<lparr>mw_error = JUndefined, completed = True\<rparr>, st')
             else executeMiddlewareChain gp rest req pathname st'))"

fun executeErrorMiddlewareChain :: "string \<Rightarrow> (string \<times> 'u error_middleware) list \<Rightarrow> jsval
    \<Rightarrow> express_request \<Rightarrow> string \<Rightarrow> 'u express_state \<Rightarrow> bool settle \<times> 'u express_state" where
  "executeErrorMiddlewareChain gp [] error req pathname st = (Returns False, st)"
| "executeErrorMiddlewareChain gp ((mpath, handler) # rest) error req pathname st =
     (if \<not> pathMatchesMiddleware pathname (buildPath gp mpath) then
        executeErrorMiddlewareChain gp rest error req pathname st
      else
        (case handler error req st of
           ((args, Throws e), st') \<Rightarrow> executeErrorMiddlewareChain gp rest error req pathname st'
         | ((args, Pending), st') \<Rightarrow> (Pending, st')
         | ((args, Returns v), st') \<Rightarrow>
             if ended (fst st') then (Returns True, st')
             else if truthy (nextError args) then
               executeErrorMiddlewareChain gp rest (nextError args) req pathname st'
             else (Returns True, st')))"

section \<open>The dispatcher (bun-adapter.ts, handleRequest)\<close>

text \<open>
  The adapter's registries, as \<^verbatim>\<open>handleRequest\<close> reads them, and the objects of one
  request: the Express response, the Fastify reply and the application's state.
\<close>

record 'u adapter =
  routes :: "'u middleware route list"
  middlewares :: "(string \<times> 'u middleware) list"
  errorMiddlewares :: "(string \<times> 'u error_middleware) list"
  globalPrefix :: string
  fastifyHooks :: "'u hooks_manager"
  notFoundHandler :: "'u middleware option"
  errorHandler :: "'u error_handler option"

record 'u world =
  w_res :: express_response
  w_reply :: fastify_reply
  w_ext :: 'u

definition onRes :: "('u express_state \<Rightarrow> 'a \<times> 'u express_state) \<Rightarrow> 'u world \<Rightarrow> 'a \<times> 'u world" where
  "onRes f w = (case f (w_res w, w_ext w) of (a, (r, x)) \<Rightarrow> (a, w\<lparr>w_res := r, w_ext := x\<rparr>))"

definition onReply :: "('u reply_state \<Rightarrow> 'a \<times> 'u reply_state) \<Rightarrow> 'u world \<Rightarrow> 'a \<times> 'u world" where
  "onReply f w = (case f (w_reply w, w_ext w) of (a, (r, x)) \<Rightarrow> (a, w\<lparr>w_reply := r, w_ext := x\<rparr>))"

text \<open>
  Sequencing of awaited steps: \<open>bindS\<close> goes on after a step that returned and passes a
  throw or a promise that never settles on; \<open>catchS\<close> is \<^verbatim>\<open>try { ... } catch (error) { ... }\<close>.
\<close>

fun bindS :: "'a settle \<times> 's \<Rightarrow> ('a \<Rightarrow> 's \<Rightarrow> 'b settle \<times> 's) \<Rightarrow> 'b settle \<times> 's" where
  "bindS (Returns a, s) f = f a s"
| "bindS (Throws e, s) f = (Throws e, s)"
| "bindS (Pending, s) f = (Pending, s)"

fun catchS :: "'a settle \<times> 's \<Rightarrow> (jsval \<Rightarrow> 's \<Rightarrow> 'a settle \<times> 's) \<Rightarrow> 'a settle \<times> 's" where
  "catchS (Throws e, s) h = h e s"
| "catchS (Returns a, s) h = (Returns a, s)"
| "catchS (Pending, s) h = (Pending, s)"

text \<open>\<^verbatim>\<open>await handler(req, res, next)\<close>: the calls of \<^verbatim>\<open>next\<close> count only if the call returns.\<close>

fun awaitCall :: "(jsval list \<times> ret settle) \<times> 's \<Rightarrow> (jsval list \<times> ret) settle \<times> 's" where
  "awaitCall ((args, Returns v), s) = (Returns (args, v), s)"
| "awaitCall ((args, Throws e), s) = (Throws e, s)"
| "awaitCall ((args, Pending), s) = (Pending, s)"

text \<open>The global error handler: a throw leaves the enclosing block.\<close>

fun callHandler :: "jsval option \<times> 's \<Rightarrow> unit settle \<times> 's" where
  "callHandler (None, s) = (Returns (), s)"
| "callHandler (Some e, s) = (Throws e, s)"

definition buildRes :: "'u world \<Rightarrow> response settle \<times> 'u world" where
  "buildRes w = (case express_buildResponse (w_res w) of (response, res') \<Rightarrow> (Returns response, w\<lparr>w_res := res'\<rparr>))"

definition buildReply :: "'u world \<Rightarrow> response settle \<times> 'u world" where
  "buildReply w = (case reply_buildResponse (w_reply w) of (response, reply') \<Rightarrow> (Returns response, w\<lparr>w_reply := reply'\<rparr>))"

text \<open>\<^verbatim>\<open>error.message\<close> of a value: only an Error has one.\<close>

fun errorMessage :: "jsval \<Rightarrow> jsval" where
  "errorMessage (JError m) = JStr m"
| "errorMessage _ = JUndefined"

text \<open>
  An error of the \<^verbatim>\<open>onRequest\<close> or \<^verbatim>\<open>preHandler\<close> hooks (lines 395-405 and 439-449): the
  \<^verbatim>\<open>onError\<close> hooks, else a 500 on the Fastify reply.
\<close>

definition hookFailure :: "'u adapter \<Rightarrow> fastify_request \<Rightarrow> jsval \<Rightarrow> 'u world \<Rightarrow> response settle \<times> 'u world" where
  "hookFailure A fastifyReq hookError w =
     bindS (onReply (executeOnError (fastifyHooks A) fastifyReq hookError) w) (\<lambda>errorHandled w1.
       if \<not> errorHandled then
         buildReply (w1\<lparr>w_reply :=
           reply_send (JObj [(''statusCode'', JNum 500), (''error'', JStr ''Internal Server Error''),
                             (''message'', errorMessage hookError)])
             (reply_code 500 (w_reply w1))\<rparr>)
       else buildReply w1)"

text \<open>
  \<^verbatim>\<open>if (this.errorHandler) { this.errorHandler(error, req, res); } else { res.status(500).json(...) }\<close>
\<close>

definition handlerOrDefault500 :: "'u adapter \<Rightarrow> express_request \<Rightarrow> jsval \<Rightarrow> 'u world \<Rightarrow> unit settle \<times> 'u world" where
  "handlerOrDefault500 A req error w =
     (case errorHandler A of
        Some h \<Rightarrow> callHandler (onRes (h error req) w)
      | None \<Rightarrow>
          (Returns (), w\<lparr>w_res :=
             express_json (JObj [(''statusCode'', JNum 500), (''message'', JStr (messageOr error))])
               (express_status 500 (w_res w))\<rparr>))"

text \<open>An error of the Express middleware chain (lines 416-430).\<close>

definition middlewareFailure :: "'u adapter \<Rightarrow> express_request \<Rightarrow> string \<Rightarrow> jsval \<Rightarrow> 'u world \<Rightarrow> response settle \<times> 'u world" where
  "middlewareFailure A req pathname error w =
     bindS (onRes (executeErrorMiddlewareChain (globalPrefix A) (errorMiddlewares A) error req pathname) w)
       (\<lambda>errorHandled w1.
          if \<not> errorHandled then bindS (handlerOrDefault500 A req error w1) (\<lambda>u. buildRes)
          else buildRes w1)"

text \<open>
  An error of the route handler, thrown or passed to \<^verbatim>\<open>next\<close>. The source has this code
  twice, at lines 473-494 for \<^verbatim>\<open>nextError\<close> and at lines 528-549 in the \<^verbatim>\<open>catch\<close> block.
\<close>

definition recoverHandlerError :: "'u adapter \<Rightarrow> express_request \<Rightarrow> fastify_request \<Rightarrow> string \<Rightarrow> jsval
    \<Rightarrow> 'u world \<Rightarrow> response settle \<times> 'u world" where
  "recoverHandlerError A req fastifyReq pathname error w =
     bindS (onRes (executeErrorMiddlewareChain (globalPrefix A) (errorMiddlewares A) error req pathname) w)
       (\<lambda>errorHandled w1.
          if \<not> errorHandled then
            bindS (onReply (executeOnError (fastifyHooks A) fastifyReq
                              (if isError error then error else JError (String_of error))) w1)
              (\<lambda>fastifyErrorHandled w2.
                 if \<not> fastifyErrorHandled then bindS (handlerOrDefault500 A req error w2) (\<lambda>u. buildRes)
                 else buildReply w2)
          else buildRes w1)"

text \<open>
  Lines 507-526: the \<^verbatim>\<open>onSend\<close> hooks over \<^verbatim>\<open>res._body\<close> (the payload they return is not
  used), the Express response is built, then the \<^verbatim>\<open>onResponse\<close> hooks run.
\<close>

definition sendAndRespond :: "'u adapter \<Rightarrow> fastify_request \<Rightarrow> 'u world \<Rightarrow> response settle \<times> 'u world" where
  "sendAndRespond A fastifyReq w =
     bindS (onReply (executeOnSend (fastifyHooks A) fastifyReq (body (w_res w))) w) (\<lambda>onSendResult w1.
       bindS
         (if truthy (fst onSendResult) then
            bindS (onReply (executeOnError (fastifyHooks A) fastifyReq (fst onSendResult)) w1)
              (\<lambda>errorHandled w2.
                 if \<not> errorHandled then
                   (Returns None, w2\<lparr>w_res :=
                      express_json (JObj [(''statusCode'', JNum 500), (''message'', errorMessage (fst onSendResult))])
                        (express_status 500 (w_res w2))\<rparr>)
                 else bindS (buildReply w2) (\<lambda>r w3. (Returns (Some r), w3)))
          else (Returns None, w1))
         (\<lambda>early w2.
            case early of
              Some r \<Rightarrow> (Returns r, w2)
            | None \<Rightarrow>
                bindS (buildRes w2) (\<lambda>response w3.
                  bindS (onReply (executeOnResponse (fastifyHooks A) fastifyReq) w3) (\<lambda>u w4.
                    (Returns response, w4)))))"

text \<open>
  The \<^verbatim>\<open>try\<close> block around the route handler (lines 468-526), and the whole
  \<^verbatim>\<open>if (matchedRoute)\<close> block with its \<^verbatim>\<open>catch\<close> (lines 457-551).
\<close>

fun retPresent :: "ret \<Rightarrow> bool" where
  "retPresent (RVal v) = present v"
| "retPresent (RResponse r) = True"

definition tryHandler :: "'u adapter \<Rightarrow> 'u middleware \<Rightarrow> express_request \<Rightarrow> fastify_request \<Rightarrow> string
    \<Rightarrow> 'u world \<Rightarrow> response settle \<times> 'u world" where
  "tryHandler A handler req fastifyReq pathname w =
     bindS (awaitCall (onRes (handler req) w)) (\<lambda>(args, handlerResult) w1.
       if truthy (nextError args) then recoverHandlerError A req fastifyReq pathname (nextError args) w1
       else if \<not> ended (w_res w1) \<and> retPresent handlerResult then
         (case handlerResult of
            RResponse r \<Rightarrow>
              bindS (onReply (executeOnResponse (fastifyHooks A) fastifyReq) w1) (\<lambda>u w2. (Returns r, w2))
          | RVal v \<Rightarrow> sendAndRespond A fastifyReq (w1\<lparr>w_res := express_send v (w_res w1)\<rparr>))
       else sendAndRespond A fastifyReq w1)"

definition runRoute :: "'u adapter \<Rightarrow> 'u middleware \<Rightarrow> express_request \<Rightarrow> fastify_request \<Rightarrow> string
    \<Rightarrow> 'u world \<Rightarrow> response settle \<times> 'u world" where
  "runRoute A handler req fastifyReq pathname w =
     catchS (tryHandler A handler req fastifyReq pathname w)
       (\<lambda>error. recoverHandlerError A req fastifyReq pathname error)"

text \<open>Lines 553-562: no route matched.\<close>

definition notFound :: "'u adapter \<Rightarrow> express_request \<Rightarrow> 'u world \<Rightarrow> response settle \<times> 'u world" where
  "notFound A req w =
     (case notFoundHandler A of
        Some h \<Rightarrow> bindS (awaitCall (onRes (h req) w)) (\<lambda>r. buildRes)
      | None \<Rightarrow>
          (Returns \<lparr>status = 404, statusText = [],
                    rheaders = hset ''Content-Type'' ''application/json'' Map.empty,
                    rbody = JSON_stringify (JObj [(''statusCode'', JNum 404), (''message'', JStr ''Not Found'')])\<rparr>,
           w))"

text \<open>The outer \<^verbatim>\<open>try\<close> block (lines 392-562), phase after phase.\<close>

definition afterPreHandler :: "'u adapter \<Rightarrow> 'u middleware option \<Rightarrow> express_request \<Rightarrow> fastify_request
    \<Rightarrow> string \<Rightarrow> 'u world \<Rightarrow> response settle \<times> 'u world" where
  "afterPreHandler A matchedRoute req fastifyReq pathname w =
     (case matchedRoute of
        Some handler \<Rightarrow> runRoute A handler req fastifyReq pathname w
      | None \<Rightarrow> notFound A req w)"

definition afterMiddleware :: "'u adapter \<Rightarrow> 'u middleware option \<Rightarrow> express_request \<Rightarrow> fastify_request
    \<Rightarrow> string \<Rightarrow> 'u world \<Rightarrow> response settle \<times> 'u world" where
  "afterMiddleware A matchedRoute req fastifyReq pathname w =
     bindS (onReply (executePreHandler (fastifyHooks A) fastifyReq) w) (\<lambda>preHandlerError w1.
       if truthy preHandlerError then hookFailure A fastifyReq preHandlerError w1
       else if sent (w_reply w1) then buildReply w1
       else afterPreHandler A matchedRoute req fastifyReq pathname w1)"

definition afterOnRequest :: "'u adapter \<Rightarrow> 'u middleware option \<Rightarrow> express_request \<Rightarrow> fastify_request
    \<Rightarrow> string \<Rightarrow> 'u world \<Rightarrow> response settle \<times> 'u world" where
  "afterOnRequest A matchedRoute req fastifyReq pathname w =
     bindS (onRes (executeMiddlewareChain (globalPrefix A) (middlewares A) req pathname) w)
       (\<lambda>middlewareResult w1.
          if truthy (mw_error middlewareResult) then
            middlewareFailure A req pathname (mw_error middlewareResult) w1
          else if completed middlewareResult \<or> ended (w_res w1) then buildRes w1
          else afterMiddleware A matchedRoute req fastifyReq pathname w1)"

definition phases :: "'u adapter \<Rightarrow> 'u middleware option \<Rightarrow> express_request \<Rightarrow> fastify_request
    \<Rightarrow> string \<Rightarrow> 'u world \<Rightarrow> response settle \<times> 'u world" where
  "phases A matchedRoute req fastifyReq pathname w =
     bindS (onReply (executeOnRequest (fastifyHooks A) fastifyReq) w) (\<lambda>onRequestError w1.
       if truthy onRequestError then hookFailure A fastifyReq onRequestError w1
       else if sent (w_reply w1) then buildReply w1
       else afterOnRequest A matchedRoute req fastifyReq pathname w1)"

text \<open>The top-level \<^verbatim>\<open>catch\<close> (lines 563-580).\<close>

definition topLevelCatch :: "'u adapter \<Rightarrow> express_request \<Rightarrow> jsval \<Rightarrow> 'u world \<Rightarrow> response settle \<times> 'u world" where
  "topLevelCatch A req error w =
     (case errorHandler A of
        Some h \<Rightarrow> bindS (callHandler (onRes (h error req) w)) (\<lambda>u. buildRes)
      | None \<Rightarrow>
          (Returns \<lparr>status = 500, statusText = [],
                    rheaders = hset ''Content-Type'' ''application/json'' Map.empty,
                    rbody = JSON_stringify (JObj [(''statusCode'', JNum 500), (''message'', JStr (messageOr error))])\<rparr>,
           w))"

text \<open>
  \<^verbatim>\<open>handleRequest\<close>: routing, the request views and response objects, the body, then the
  phases under the top-level \<^verbatim>\<open>catch\<close>. The result is what becomes of the promise it
  returns, together with the request's objects and the application's state at that moment.
  The decorators copied onto the Fastify request and reply are not modelled.
\<close>

definition handleRequest :: "'u adapter \<Rightarrow> bun_request \<Rightarrow> 'u \<Rightarrow> response settle \<times> 'u world" where
  "handleRequest A bunRequest ext =
     (let pathname = req_pathname bunRequest;
          method = upper (req_method bunRequest);
          matched = findRoute (routes A) method pathname;
          params = (case matched of None \<Rightarrow> Map.empty | Some (route, ps) \<Rightarrow> ps);
          matchedRoute = (case matched of None \<Rightarrow> None | Some (route, ps) \<Rightarrow> Some (route_handler route));
          w = \<lparr>w_res = createExpressResponse, w_reply = createFastifyReply, w_ext = ext\<rparr>
      in bindS (parseRequestBody bunRequest, w) (\<lambda>parsedBody w0.
           let req = (createExpressRequest bunRequest params)\<lparr>ereq_body := parsedBody\<rparr>;
               fastifyReq = (createFastifyRequest bunRequest params)\<lparr>freq_body := parsedBody\<rparr>
           in catchS (phases A matchedRoute req fastifyReq pathname w0) (topLevelCatch A req)))"

section \<open>Plugins and startup (fastify-compat.ts, FastifyPluginRegistry; bun-adapter.ts, listen)\<close>

text \<open>
  A plugin is a function of the instance object that \<^verbatim>\<open>initializeFastifyPlugins\<close> builds.
  Through it the plugin reaches the adapter's registries: decorators, hooks, routes, and
  the list of plugins itself (\<^verbatim>\<open>instance.register\<close>). The hooks manager stores hooks under
  five names and drops any other name.
\<close>

datatype hook_name = OnRequest | PreHandler | OnSend | OnError | OnResponse | OtherHook

datatype ('p, 'h, 'v) instance_call =
    Decorate string 'v
  | DecorateRequest string 'v
  | DecorateReply string 'v
  | AddHook hook_name 'h
  | Register 'p
  | AddRoute string string 'h

text \<open>
  The registries a plugin can change and the adapter's \<^verbatim>\<open>fastifyInitialized\<close> flag. Plugins
  \<open>'p\<close>, hooks and handlers \<open>'h\<close> and decorator values \<open>'v\<close> are kept as the
  application registered them; routes are kept as registered (method, full path,
  handler). \<open>servers\<close> counts the calls of \<^verbatim>\<open>Bun.serve\<close>. \<open>pluginCalls\<close> is no field of
  the adapter: it lists the plugins in the order in which they have been called.
\<close>

record ('p, 'h, 'v) registry =
  reg_decorators :: "string \<rightharpoonup> 'v"
  reg_requestDecorators :: "string \<rightharpoonup> 'v"
  reg_replyDecorators :: "string \<rightharpoonup> 'v"
  reg_plugins :: "'p list"
  reg_hooks :: "hook_name \<Rightarrow> 'h list"
  reg_routes :: "(string \<times> string \<times> 'h) list"
  reg_globalPrefix :: string
  fastifyInitialized :: bool
  servers :: nat
  pluginCalls :: "'p list"

fun applyCall :: "('p, 'h, 'v) instance_call \<Rightarrow> ('p, 'h, 'v) registry \<Rightarrow> ('p, 'h, 'v) registry" where
  "applyCall (Decorate name v) reg = reg\<lparr>reg_decorators := (reg_decorators reg)(name \<mapsto> v)\<rparr>"
| "applyCall (DecorateRequest name v) reg = reg\<lparr>reg_requestDecorators := (reg_requestDecorators reg)(name \<mapsto> v)\<rparr>"
| "applyCall (DecorateReply name v) reg = reg\<lparr>reg_replyDecorators := (reg_replyDecorators reg)(name \<mapsto> v)\<rparr>"
| "applyCall (AddHook name h) reg =
     (if name = OtherHook then reg else reg\<lparr>reg_hooks := (reg_hooks reg)(name := reg_hooks reg name @ [h])\<rparr>)"
| "applyCall (Register p) reg = reg\<lparr>reg_plugins := reg_plugins reg @ [p]\<rparr>"
| "applyCall (AddRoute method path h) reg =
     reg\<lparr>reg_routes := reg_routes reg @ [(upper method, buildPath (reg_globalPrefix reg) path, h)]\<rparr>"

text \<open>
  What a plugin does when called: the calls it makes on the instance, which may depend on
  what it finds registered, and how it completes (\<^verbatim>\<open>done(err)\<close>, its promise, a throw,
  or never). \<^verbatim>\<open>done\<close> with an error, a rejection and a throw all reject the promise
  \<^verbatim>\<open>initializePlugins\<close> awaits.
\<close>

type_synonym ('p, 'h, 'v) plugin_run =
  "'p \<Rightarrow> ('p, 'h, 'v) registry \<Rightarrow> ('p, 'h, 'v) instance_call list \<times> hook_signal"

fun pluginOutcome :: "hook_signal \<Rightarrow> unit settle" where
  "pluginOutcome (Done err) = (if truthy err then Throws err else Returns ())"
| "pluginOutcome Resolved = Returns ()"
| "pluginOutcome (Rejected err) = Throws err"
| "pluginOutcome (Thrown e) = Throws e"
| "pluginOutcome Never = Pending"

text \<open>
  \<^verbatim>\<open>for (const { plugin, opts } of this.plugins) { await ... }\<close>: the loop reads the list
  again at every step, so a plugin registered by a plugin is reached too, and the loop
  need not end. The first argument bounds the number of steps; \<open>None\<close> says that the
  bound was reached.
\<close>

fun initializePluginsFrom :: "nat \<Rightarrow> ('p, 'h, 'v) plugin_run \<Rightarrow> nat \<Rightarrow> ('p, 'h, 'v) registry
    \<Rightarrow> (unit settle \<times> ('p, 'h, 'v) registry) option" where
  "initializePluginsFrom 0 run i reg = None"
| "initializePluginsFrom (Suc fuel) run i reg =
     (if i < length (reg_plugins reg) then
        (let plugin = reg_plugins reg ! i;
             (calls, sig) = run plugin reg;
             reg' = fold applyCall calls (reg\<lparr>pluginCalls := pluginCalls reg @ [plugin]\<rparr>)
         in case pluginOutcome sig of
              Returns u \<Rightarrow> initializePluginsFrom fuel run (Suc i) reg'
            | Throws e \<Rightarrow> Some (Throws e, reg')
            | Pending \<Rightarrow> Some (Pending, reg'))
      else Some (Returns (), reg))"

definition initializeFastifyPlugins :: "nat \<Rightarrow> ('p, 'h, 'v) plugin_run \<Rightarrow> ('p, 'h, 'v) registry
    \<Rightarrow> (unit settle \<times> ('p, 'h, 'v) registry) option" where
  "initializeFastifyPlugins fuel run reg =
     (if fastifyInitialized reg then Some (Returns (), reg)
      else (case initializePluginsFrom fuel run 0 reg of
              None \<Rightarrow> None
            | Some (Returns u, reg') \<Rightarrow> Some (Returns (), reg'\<lparr>fastifyInitialized := True\<rparr>)
            | Some (Throws e, reg') \<Rightarrow> Some (Throws e, reg')
            | Some (Pending, reg') \<Rightarrow> Some (Pending, reg')))"

text \<open>
  \<^verbatim>\<open>listen\<close>: the plugins are initialised, then the server is started. What
  \<^verbatim>\<open>Bun.serve\<close> itself may refuse (a port in use) is the platform's.
\<close>

definition listen :: "nat \<Rightarrow> ('p, 'h, 'v) plugin_run \<Rightarrow> ('p, 'h, 'v) registry
    \<Rightarrow> (unit settle \<times> ('p, 'h, 'v) registry) option" where
  "listen fuel run reg =
     (case initializeFastifyPlugins fuel run reg of
        None \<Rightarrow> None
      | Some (Returns u, reg') \<Rightarrow> Some (Returns (), reg'\<lparr>servers := Suc (servers reg')\<rparr>)
      | Some (Throws e, reg') \<Rightarrow> Some (Throws e, reg')
      | Some (Pending, reg') \<Rightarrow> Some (Pending, reg'))"

definition registersNothing :: "('p, 'h, 'v) instance_call \<Rightarrow> bool" where
  "registersNothing c = (case c of Register p \<Rightarrow> False | _ \<Rightarrow> True)"

text \<open>A fresh adapter on which the given plugins have been registered.\<close>

definition newRegistry :: "'p list \<Rightarrow> ('p, 'h, 'v) registry" where
  "newRegistry ps =
     \<lparr>reg_decorators = Map.empty, reg_requestDecorators = Map.empty, reg_replyDecorators = Map.empty,
      reg_plugins = ps, reg_hooks = (\<lambda>name. []), reg_routes = [], reg_globalPrefix = [],
      fastifyInitialized = False, servers = 0, pluginCalls = []\<rparr>"

text \<open>
  Two sample sets of plugins. In the first, plugin 1 adds an \<^verbatim>\<open>onRequest\<close> hook and
  plugin 2 fails. In the second, plugin 1 registers plugin 3 and adds a hook, plugin 2
  decorates the instance, plugin 3 adds an \<^verbatim>\<open>onResponse\<close> hook.
\<close>

definition failingSecond :: "(nat, string, jsval) plugin_run" where
  "failingSecond p reg =
     (if p = 1 then ([AddHook OnRequest ''logger''], Done JUndefined)
      else ([], Done (JError ''plugin failed'')))"

definition nesting :: "(nat, string, jsval) plugin_run" where
  "nesting p reg =
     (if p = 1 then ([Register 3, AddHook OnRequest ''logger''], Done JUndefined)
      else if p = 2 then ([Decorate ''version'' (JNum 1)], Resolved)
      else ([AddHook OnResponse ''timer''], Done JUndefined))"

section \<open>Sample requests and callbacks\<close>

text \<open>
  Concrete inputs for the evaluations below: a GET request without headers or body, and
  callbacks that note their tag in the application's state, here a log of tags.
\<close>

definition getRequest :: "string \<Rightarrow> bun_request" where
  "getRequest path =
     \<lparr>req_method = ''GET'', req_pathname = path, req_searchParams = [], req_headers = Map.empty,
      req_json = Throws (JError ''Unexpected end of JSON input''), req_text = Returns [],
      req_textParams = [], req_formData = Throws (JError ''not a form'')\<rparr>"

text \<open>\<^verbatim>\<open>(req, res, next) => { log.push(tag); next(); }\<close>\<close>

definition passOn :: "'a \<Rightarrow> 'a list middleware" where
  "passOn tag = (\<lambda>req (res, log). (([JUndefined], Returns (RVal JUndefined)), (res, log @ [tag])))"

text \<open>\<^verbatim>\<open>(req, reply, payload, done) => done(undefined, payload + tail)\<close>\<close>

definition appending :: "string \<Rightarrow> 'u send_hook" where
  "appending tail = (\<lambda>req payload st. (SDone JUndefined (JStr (String_of payload @ tail)), st))"

text \<open>\<^verbatim>\<open>(req, res) => { res.send("ok"); }\<close>, registered for \<^verbatim>\<open>GET /test\<close>.\<close>

definition sendOk :: "'u middleware" where
  "sendOk = (\<lambda>req (res, x). (([], Returns (RVal JUndefined)), (express_send (JStr ''ok'') res, x)))"

definition testRoute :: "'u middleware route" where
  "testRoute =
     \<lparr>route_path = ''/test'', route_method = ''GET'', route_handler = sendOk,
      pathPattern = map Lit ''/test'', paramNames = []\<rparr>"



text \<open>\<^verbatim>\<open>(req, reply, done) => { log.push(tag); done(); }\<close>\<close>

definition noting :: "'a \<Rightarrow> 'a list hook" where
  "noting tag = (\<lambda>req (reply, log). (Done JUndefined, (reply, log @ [tag])))"




definition noHooks :: "'u hooks_manager" where
  "noHooks = \<lparr>onRequestHooks = [], preHandlerHooks = [], onSendHooks = [], onErrorHooks = [], onResponseHooks = []\<rparr>"

text \<open>
  An application with an \<^verbatim>\<open>onResponse\<close> hook that notes its call, and the route
  \<^verbatim>\<open>GET /test\<close>.
\<close>

definition loggingApp :: "string list adapter" where
  "loggingApp =
     \<lparr>routes = [testRoute], middlewares = [], errorMiddlewares = [], globalPrefix = [],
      fastifyHooks = noHooks\<lparr>onResponseHooks := [noting ''onResponse'']\<rparr>,
      notFoundHandler = None, errorHandler = None\<rparr>"



section \<open>Facts about the string primitives\<close>

lemma split_on_nonempty: "split_on c s \<noteq> []"
  by (induction s) (auto split: list.splits)

lemma join_Cons_Cons: "join sep ((x # y) # ys) = x # join sep (y # ys)"
  by (cases ys) simp_all

lemma join_split_on: "join [c] (split_on c s) = s"
proof (induction s)
  case Nil
  show ?case by simp
next
  case (Cons x xs)
  obtain y ys where sp: "split_on c xs = y # ys"
    using split_on_nonempty [of c xs] by (cases "split_on c xs") auto
  show ?case
  proof (cases "x = c")
    case True
    with Cons sp show ?thesis by simp
  next
    case False
    with Cons sp show ?thesis by (simp add: join_Cons_Cons)
  qed
qed







lemma lower_Content_Type: "lower ''Content-Type'' = ''content-type''"
  by code_simp

lemma lower_Location: "lower ''Location'' = ''location''"
  by code_simp


section \<open>Terminal calls on a response that has already ended\<close>




section \<open>Query parameters with a repeated key\<close>





section \<open>Cookie parsing\<close>



section \<open>Body parsing\<close>

text \<open>
  C5 (as stated, refuted). A request whose Content-Type is none of the four recognised
  kinds, here \<^verbatim>\<open>application/octet-stream\<close>, gets the body \<^verbatim>\<open>undefined\<close>, not a byte
  buffer, although its bytes could be read.
\<close>

theorem body_raw_buffer_counterexample:
  "parseRequestBody
     \<lparr>req_method = ''POST'', req_pathname = ''/upload'', req_searchParams = [],
      req_headers = [''content-type'' \<mapsto> ''application/octet-stream''],
      req_json = Throws (JError ''Unexpected token''), req_text = Returns ''AB'',
      req_textParams = [(''AB'', [])], req_formData = Throws (JError ''not a form'')\<rparr>
   = Returns JUndefined
   \<and> \<not> isBuffer JUndefined"
  by code_simp

text \<open>
  C5 (amended). Body parsing dispatches on the Content-Type header alone, by substring and
  in this order: \<^verbatim>\<open>application/json\<close> gives what \<^verbatim>\<open>json()\<close> parses,
  \<^verbatim>\<open>application/x-www-form-urlencoded\<close> a key/value object of strings,
  \<^verbatim>\<open>multipart/form-data\<close> a field-name/value object, \<^verbatim>\<open>text/\<close> the raw text, and anything
  else \<^verbatim>\<open>undefined\<close>. A reader that throws is swallowed to \<^verbatim>\<open>undefined\<close>: the parsing
  step never throws.
\<close>

theorem parseRequestBody_dispatch:
  "ct = (case hget (req_headers req) ''content-type'' of None \<Rightarrow> [] | Some c \<Rightarrow> c) \<Longrightarrow>
   parseRequestBody req \<noteq> Throws e
   \<and> (str_includes ct ''application/json'' \<longrightarrow>
        parseRequestBody req = swallow (req_json req)
        \<and> (req_json req = Returns v \<longrightarrow> parseRequestBody req = Returns v)
        \<and> (req_json req = Throws x \<longrightarrow> parseRequestBody req = Returns JUndefined))
   \<and> (\<not> str_includes ct ''application/json'' \<and> str_includes ct ''application/x-www-form-urlencoded'' \<longrightarrow>
        (req_text req = Returns t \<longrightarrow>
           parseRequestBody req = Returns (JObj (fold (\<lambda>(key, v). objAssign key (JStr v)) (req_textParams req) [])))
        \<and> (req_text req = Throws x \<longrightarrow> parseRequestBody req = Returns JUndefined))
   \<and> (\<not> str_includes ct ''application/json'' \<and> \<not> str_includes ct ''application/x-www-form-urlencoded''
        \<and> str_includes ct ''multipart/form-data'' \<longrightarrow>
        (req_formData req = Returns fd \<longrightarrow>
           parseRequestBody req = Returns (JObj (fold (\<lambda>(key, v). objAssign key v) fd [])))
        \<and> (req_formData req = Throws x \<longrightarrow> parseRequestBody req = Returns JUndefined))
   \<and> (\<not> str_includes ct ''application/json'' \<and> \<not> str_includes ct ''application/x-www-form-urlencoded''
        \<and> \<not> str_includes ct ''multipart/form-data'' \<and> str_includes ct ''text/'' \<longrightarrow>
        (req_text req = Returns t \<longrightarrow> parseRequestBody req = Returns (JStr t))
        \<and> (req_text req = Throws x \<longrightarrow> parseRequestBody req = Returns JUndefined))
   \<and> (\<not> str_includes ct ''application/json'' \<and> \<not> str_includes ct ''application/x-www-form-urlencoded''
        \<and> \<not> str_includes ct ''multipart/form-data'' \<and> \<not> str_includes ct ''text/'' \<longrightarrow>
        parseRequestBody req = Returns JUndefined)"
proof -
  assume ct: "ct = (case hget (req_headers req) ''content-type'' of None \<Rightarrow> [] | Some c \<Rightarrow> c)"
  have sw: "swallow m \<noteq> Throws e" for m
    by (cases m) simp_all
  have nothrow: "parseRequestBody req \<noteq> Throws e"
    by (simp add: parseRequestBody_def Let_def sw)
  show ?thesis
    using nothrow ct by (simp add: parseRequestBody_def Let_def)
qed

theorem parseRequestBody_dispatch_witness:
  "parseRequestBody
     \<lparr>req_method = ''POST'', req_pathname = ''/users'', req_searchParams = [],
      req_headers = [''content-type'' \<mapsto> ''application/json; charset=utf-8''],
      req_json = Throws (JError ''Unexpected end of JSON input''), req_text = Returns ''{'',
      req_textParams = [], req_formData = Throws (JError ''not a form'')\<rparr>
   = Returns JUndefined"
proof -
  let ?req = "\<lparr>req_method = ''POST'', req_pathname = ''/users'', req_searchParams = [],
      req_headers = [''content-type'' \<mapsto> ''application/json; charset=utf-8''],
      req_json = Throws (JError ''Unexpected end of JSON input''), req_text = Returns ''{'',
      req_textParams = [], req_formData = Throws (JError ''not a form'')\<rparr>"
  have ct: "''application/json; charset=utf-8''
            = (case hget (req_headers ?req) ''content-type'' of None \<Rightarrow> [] | Some c \<Rightarrow> c)"
    by (simp add: hget_def lower_def lowerChar_def)
  have inc: "str_includes ''application/json; charset=utf-8'' ''application/json''"
    by code_simp
  have rj: "req_json ?req = Throws (JError ''Unexpected end of JSON input'')"
    by simp
  from parseRequestBody_dispatch [OF ct, where x = "JError ''Unexpected end of JSON input''"] inc rj
  show ?thesis
    by blast
qed

section \<open>Route matching\<close>











section \<open>Middleware scope\<close>

lemma split_on_append_sep: "split_on c (a @ c # b) = split_on c a @ split_on c b"
proof (induction a)
  case Nil
  show ?case by simp
next
  case (Cons x a)
  obtain y ys where sp: "split_on c a = y # ys"
    using split_on_nonempty [of c a] by (cases "split_on c a") auto
  with Cons show ?case by simp
qed

lemma join_append:
  "xs \<noteq> [] \<Longrightarrow> ys \<noteq> [] \<Longrightarrow> join sep (xs @ ys) = join sep xs @ sep @ join sep ys"
proof (induction xs)
  case Nil
  then show ?case by simp
next
  case (Cons x xs)
  show ?case
  proof (cases xs)
    case Nil
    with Cons.prems show ?thesis by (cases ys) simp_all
  next
    case (Cons x' xs')
    with Cons.IH Cons.prems show ?thesis by simp
  qed
qed

lemma startsWith_append: "startsWith s p \<longleftrightarrow> (\<exists>r. s = p @ r)"
proof
  assume "startsWith s p"
  then have "s = p @ drop (length p) s"
    by (metis append_take_drop_id startsWith_def)
  then show "\<exists>r. s = p @ r" ..
next
  assume "\<exists>r. s = p @ r"
  then show "startsWith s p"
    by (auto simp: startsWith_def)
qed

lemma segment_prefix:
  "prefix (split_on c a) (split_on c q) \<longleftrightarrow> q = a \<or> startsWith q (a @ [c])"
proof
  assume "prefix (split_on c a) (split_on c q)"
  then obtain rest where r: "split_on c q = split_on c a @ rest"
    by (auto simp: prefix_def)
  show "q = a \<or> startsWith q (a @ [c])"
  proof (cases rest)
    case Nil
    with r have "join [c] (split_on c q) = join [c] (split_on c a)" by simp
    then show ?thesis by (simp add: join_split_on)
  next
    case (Cons y ys)
    have "q = join [c] (split_on c a @ rest)"
      using r join_split_on [of c q] by simp
    also have "\<dots> = join [c] (split_on c a) @ [c] @ join [c] rest"
      using Cons by (intro join_append) (simp_all add: split_on_nonempty)
    finally have "q = (a @ [c]) @ join [c] rest"
      by (simp add: join_split_on)
    then show ?thesis
      using startsWith_append by blast
  qed
next
  assume "q = a \<or> startsWith q (a @ [c])"
  then show "prefix (split_on c a) (split_on c q)"
  proof
    assume "q = a"
    then show ?thesis by simp
  next
    assume "startsWith q (a @ [c])"
    then obtain r where "q = a @ c # r"
      by (auto simp: startsWith_append)
    then show ?thesis
      by (simp add: split_on_append_sep)
  qed
qed

lemma pathMatchesMiddleware_segments:
  "pathMatchesMiddleware q p \<longleftrightarrow>
     p = ''/'' \<or> p = [] \<or> prefix (split_on CHR ''/'' (leadingSlash p)) (split_on CHR ''/'' q)"
  using segment_prefix [of "CHR ''/''" "leadingSlash p" q]
  by (simp add: pathMatchesMiddleware_def Let_def)

lemma chain_of_passing:
  "\<not> ended res \<Longrightarrow>
   executeMiddlewareChain gp (map (\<lambda>(p, i). (p, passOn i)) entries) req q (res, log)
   = (Returns \<lparr>mw_error = JUndefined, completed = False\<rparr>,
      (res, log @ map snd (filter (\<lambda>(p, i). pathMatchesMiddleware q (buildPath gp p)) entries)))"
proof (induction entries arbitrary: log)
  case Nil
  show ?case by simp
next
  case (Cons e entries)
  obtain p i where e: "e = (p, i)" by (cases e)
  show ?case
    using Cons by (simp add: e passOn_def nextError_def)
qed

text \<open>
  C9 (as stated, refuted). The scope \<^verbatim>\<open>/api\<close> is a prefix of the request path \<^verbatim>\<open>/apix\<close>,
  yet a middleware registered under \<^verbatim>\<open>/api\<close> is not run for \<^verbatim>\<open>/apix\<close>: the chain returns
  with the log empty. Likewise the scope \<^verbatim>\<open>/api/\<close> is a prefix of \<^verbatim>\<open>/api/users\<close> and does
  not apply to it.
\<close>

theorem middleware_string_prefix_counterexample:
  "prefix ''/api'' ''/apix''
   \<and> \<not> pathMatchesMiddleware ''/apix'' (buildPath [] ''/api'')
   \<and> executeMiddlewareChain [] [(''/api'', passOn (1::nat))]
        (createExpressRequest (getRequest ''/apix'') Map.empty) ''/apix'' (createExpressResponse, [])
      = (Returns \<lparr>mw_error = JUndefined, completed = False\<rparr>, (createExpressResponse, []))
   \<and> prefix ''/api/'' ''/api/users''
   \<and> \<not> pathMatchesMiddleware ''/api/users'' (buildPath [] ''/api/'')"
proof -
  have n: "\<not> pathMatchesMiddleware ''/apix'' (buildPath [] ''/api'')"
    by code_simp
  have n': "\<not> pathMatchesMiddleware ''/api/users'' (buildPath [] ''/api/'')"
    by code_simp
  have p: "prefix ''/api'' ''/apix''" "prefix ''/api/'' ''/api/users''"
    by simp_all
  from n n' p show ?thesis
    by simp
qed

text \<open>
  C9 (amended). A middleware registered under scope \<open>p\<close> applies to the request path
  \<open>q\<close> if and only if \<open>p\<close> is the root scope (\<^verbatim>\<open>/\<close> or empty) or \<open>p\<close>, made to start with
  a slash, is a prefix of \<open>q\<close> segment by segment: \<open>q\<close> is \<open>p\<close> itself or continues it
  with a slash. The chain skips every middleware whose scope does not apply; when every
  middleware calls \<^verbatim>\<open>next()\<close> and the response is not ended, exactly the middleware whose
  scope applies run, in registration order. Without a global prefix the root scope applies
  to every path.
\<close>

theorem middleware_scope_segment_prefix:
  "(pathMatchesMiddleware q p \<longleftrightarrow>
      p = ''/'' \<or> p = [] \<or> prefix (split_on CHR ''/'' (leadingSlash p)) (split_on CHR ''/'' q))
   \<and> (\<not> pathMatchesMiddleware q (buildPath gp mp) \<longrightarrow>
        executeMiddlewareChain gp ((mp, h) # rest) req q st = executeMiddlewareChain gp rest req q st)
   \<and> (\<not> ended res \<longrightarrow>
        executeMiddlewareChain gp (map (\<lambda>(p, i). (p, passOn i)) entries) req q (res, log)
        = (Returns \<lparr>mw_error = JUndefined, completed = False\<rparr>,
           (res, log @ map snd (filter (\<lambda>(p, i). pathMatchesMiddleware q (buildPath gp p)) entries))))
   \<and> pathMatchesMiddleware q (buildPath [] ''/'')"
proof (intro conjI impI)
  show "pathMatchesMiddleware q p \<longleftrightarrow>
      p = ''/'' \<or> p = [] \<or> prefix (split_on CHR ''/'' (leadingSlash p)) (split_on CHR ''/'' q)"
    by (rule pathMatchesMiddleware_segments)
  show "executeMiddlewareChain gp ((mp, h) # rest) req q st = executeMiddlewareChain gp rest req q st"
    if "\<not> pathMatchesMiddleware q (buildPath gp mp)"
    using that by simp
  show "executeMiddlewareChain gp (map (\<lambda>(p, i). (p, passOn i)) entries) req q (res, log)
        = (Returns \<lparr>mw_error = JUndefined, completed = False\<rparr>,
           (res, log @ map snd (filter (\<lambda>(p, i). pathMatchesMiddleware q (buildPath gp p)) entries)))"
    if "\<not> ended res"
    using that by (rule chain_of_passing)
  show "pathMatchesMiddleware q (buildPath [] ''/'')"
    by (simp add: buildPath_def leadingSlash_def startsWith_def pathMatchesMiddleware_def)
qed

theorem middleware_scope_segment_prefix_witness:
  "pathMatchesMiddleware ''/api/users'' ''/api''
   \<and> executeMiddlewareChain [] [(''/'', passOn (1::nat)), (''/admin'', passOn 2), (''/api'', passOn 3)]
        (createExpressRequest (getRequest ''/api/users'') Map.empty) ''/api/users'' (createExpressResponse, [])
      = (Returns \<lparr>mw_error = JUndefined, completed = False\<rparr>, (createExpressResponse, [1, 3]))"
proof -
  have s: "prefix (split_on CHR ''/'' (leadingSlash ''/api'')) (split_on CHR ''/'' ''/api/users'')"
    by (simp add: leadingSlash_def startsWith_def)
  have e: "\<not> ended createExpressResponse"
    by (simp add: createExpressResponse_def)
  have f: "map snd (filter (\<lambda>(p, i). pathMatchesMiddleware ''/api/users'' (buildPath [] p))
             [(''/'', 1::nat), (''/admin'', 2), (''/api'', 3)]) = [1, 3]"
    by code_simp
  note T = middleware_scope_segment_prefix
         [where q = "''/api/users''" and p = "''/api''" and gp = "[]" and mp = "''/admin''"
            and res = createExpressResponse
            and entries = "[(''/'', 1::nat), (''/admin'', 2), (''/api'', 3)]"
            and req = "createExpressRequest (getRequest ''/api/users'') Map.empty" and log = "[]"]
  from T s have m: "pathMatchesMiddleware ''/api/users'' ''/api''"
    by blast
  from T e have "executeMiddlewareChain [] (map (\<lambda>(p, i). (p, passOn i)) [(''/'', 1::nat), (''/admin'', 2), (''/api'', 3)])
        (createExpressRequest (getRequest ''/api/users'') Map.empty) ''/api/users'' (createExpressResponse, [])
      = (Returns \<lparr>mw_error = JUndefined, completed = False\<rparr>,
         (createExpressResponse, [] @ map snd (filter (\<lambda>(p, i). pathMatchesMiddleware ''/api/users'' (buildPath [] p))
             [(''/'', 1::nat), (''/admin'', 2), (''/api'', 3)])))"
    by blast
  then have "executeMiddlewareChain [] [(''/'', passOn (1::nat)), (''/admin'', passOn 2), (''/api'', passOn 3)]
        (createExpressRequest (getRequest ''/api/users'') Map.empty) ''/api/users'' (createExpressResponse, [])
      = (Returns \<lparr>mw_error = JUndefined, completed = False\<rparr>, (createExpressResponse, [1, 3]))"
    by (simp only: f append_Nil list.map prod.case)
  with m show ?thesis
    by (rule conjI)
qed

section \<open>The onSend hook chain\<close>

text \<open>
  C7. The \<^verbatim>\<open>onSend\<close> chain hands every hook the current payload. A hook that completes
  through \<^verbatim>\<open>done\<close> without error and with a replacement makes the replacement current;
  without a replacement (or when it only resolves its promise) the previous payload is
  kept; a hook that passes an error to \<^verbatim>\<open>done\<close> or rejects its promise with one stops the
  chain, which reports the error, and a hook that throws stops it with the throw. Payload
  \<^verbatim>\<open>original\<close> with one hook appending \<^verbatim>\<open> first\<close> and the next appending \<^verbatim>\<open> second\<close>
  ends as \<^verbatim>\<open>original first second\<close>.
\<close>

theorem onSend_threads_payload:
  "hook req p st = (sig, st') \<Longrightarrow>
   (sig = SDone err p' \<and> \<not> truthy err \<and> present p' \<longrightarrow>
      executeOnSendHooks (hook # hooks) req p st = executeOnSendHooks hooks req p' st')
   \<and> ((sig = SDone err p' \<and> \<not> truthy err \<and> \<not> present p') \<or> sig = SResolved \<longrightarrow>
        executeOnSendHooks (hook # hooks) req p st = executeOnSendHooks hooks req p st')
   \<and> ((sig = SDone err p' \<or> sig = SRejected err) \<and> truthy err \<longrightarrow>
        executeOnSendHooks (hook # hooks) req p st = (Returns (err, p), st'))
   \<and> (sig = SThrown e \<longrightarrow> executeOnSendHooks (hook # hooks) req p st = (Throws e, st'))
   \<and> executeOnSendHooks [] req p st = (Returns (JUndefined, p), st)
   \<and> executeOnSendHooks [appending '' first'', appending '' second''] req (JStr ''original'') st
      = (Returns (JUndefined, JStr ''original first second''), st)"
  by (cases p') (auto simp: appending_def)

theorem onSend_threads_payload_witness:
  "executeOnSendHooks
     [appending '' first'', \<lambda>req payload st. (SDone (JError ''boom'') JUndefined, st), appending '' second'']
     (createFastifyRequest (getRequest ''/test'') Map.empty) (JStr ''original'') (createFastifyReply, ())
   = (Returns (JError ''boom'', JStr ''original first''), (createFastifyReply, ()))"
proof -
  let ?req = "createFastifyRequest (getRequest ''/test'') Map.empty"
  let ?st = "(createFastifyReply, ())"
  let ?bad = "\<lambda>(req :: fastify_request) (payload :: jsval) (st :: unit reply_state). (SDone (JError ''boom'') JUndefined, st)"
  have 1: "appending '' first'' ?req (JStr ''original'') ?st = (SDone JUndefined (JStr ''original first''), ?st)"
    by (simp add: appending_def)
  have 2: "?bad ?req (JStr ''original first'') ?st = (SDone (JError ''boom'') JUndefined, ?st)"
    by simp
  from 1 onSend_threads_payload
         [where hook = "appending '' first''" and req = ?req and p = "JStr ''original''" and st = ?st
            and sig = "SDone JUndefined (JStr ''original first'')" and st' = ?st and err = JUndefined
            and p' = "JStr ''original first''" and hooks = "[?bad, appending '' second'']"]
  have "executeOnSendHooks [appending '' first'', ?bad, appending '' second''] ?req (JStr ''original'') ?st
        = executeOnSendHooks [?bad, appending '' second''] ?req (JStr ''original first'') ?st"
    by simp
  also from 2 onSend_threads_payload
         [where hook = ?bad and req = ?req and p = "JStr ''original first''" and st = ?st
            and sig = "SDone (JError ''boom'') JUndefined" and st' = ?st and err = "JError ''boom''"
            and p' = JUndefined and hooks = "[appending '' second'']"]
  have "\<dots> = (Returns (JError ''boom'', JStr ''original first''), ?st)"
    by simp
  finally show ?thesis .
qed

section \<open>Error recovery in the dispatcher\<close>









text \<open>
  With no \<^verbatim>\<open>onRequest\<close> hook, middleware or \<^verbatim>\<open>preHandler\<close> hook registered, a request that
  matches a route is handled by the route block under the top-level \<^verbatim>\<open>catch\<close>.
\<close>

lemma handleRequest_runs_route:
  assumes "findRoute (routes A) (upper (req_method rq)) (req_pathname rq) = Some (route, ps)"
    and "parseRequestBody rq = Returns parsedBody"
    and "onRequestHooks (fastifyHooks A) = []" "middlewares A = []" "preHandlerHooks (fastifyHooks A) = []"
  shows "handleRequest A rq ext =
     catchS (runRoute A (route_handler route) ((createExpressRequest rq ps)\<lparr>ereq_body := parsedBody\<rparr>)
               ((createFastifyRequest rq ps)\<lparr>freq_body := parsedBody\<rparr>) (req_pathname rq)
               \<lparr>w_res = createExpressResponse, w_reply = createFastifyReply, w_ext = ext\<rparr>)
       (topLevelCatch A ((createExpressRequest rq ps)\<lparr>ereq_body := parsedBody\<rparr>))"
  using assms
  by (simp add: handleRequest_def phases_def afterOnRequest_def afterMiddleware_def afterPreHandler_def
      executeOnRequest_def executePreHandler_def onReply_def onRes_def createFastifyReply_def
      createExpressResponse_def Let_def)




section \<open>The onResponse hooks\<close>

text \<open>
  C3 (the code at a failing input). An application registers an \<^verbatim>\<open>onResponse\<close> hook that
  notes its call. For \<^verbatim>\<open>GET /missing\<close>, which no route matches, the dispatcher returns the
  default 404 response and the hook has not been called; for \<^verbatim>\<open>GET /test\<close>, answered by
  the route handler, the same hook has been called when the response is returned.
\<close>

theorem onResponse_skipped_when_no_route_matches:
  "(case handleRequest loggingApp (getRequest ''/missing'') [] of
      (Returns r, w) \<Rightarrow> status r = 404 \<and> w_ext w = []
    | _ \<Rightarrow> False)
   \<and> (case handleRequest loggingApp (getRequest ''/test'') [] of
         (Returns r, w) \<Rightarrow> status r = 200 \<and> rbody r = JStr ''ok'' \<and> w_ext w = [''onResponse'']
       | _ \<Rightarrow> False)"
  by code_simp

section \<open>Plugin initialisation\<close>

lemma applyCall_frame:
  "\<exists>new. reg_plugins (applyCall c reg) = reg_plugins reg @ new
     \<and> pluginCalls (applyCall c reg) = pluginCalls reg
     \<and> fastifyInitialized (applyCall c reg) = fastifyInitialized reg"
  by (cases c) auto

lemma fold_applyCall_frame:
  "\<exists>new. reg_plugins (fold applyCall cs reg) = reg_plugins reg @ new
     \<and> pluginCalls (fold applyCall cs reg) = pluginCalls reg
     \<and> fastifyInitialized (fold applyCall cs reg) = fastifyInitialized reg"
proof (induction cs arbitrary: reg)
  case Nil
  show ?case by simp
next
  case (Cons c cs)
  from applyCall_frame [of c reg] obtain n1 where
    1: "reg_plugins (applyCall c reg) = reg_plugins reg @ n1"
       "pluginCalls (applyCall c reg) = pluginCalls reg"
       "fastifyInitialized (applyCall c reg) = fastifyInitialized reg"
    by blast
  from Cons [of "applyCall c reg"] obtain n2 where
    2: "reg_plugins (fold applyCall cs (applyCall c reg)) = reg_plugins (applyCall c reg) @ n2"
       "pluginCalls (fold applyCall cs (applyCall c reg)) = pluginCalls (applyCall c reg)"
       "fastifyInitialized (fold applyCall cs (applyCall c reg)) = fastifyInitialized (applyCall c reg)"
    by blast
  from 1 2 show ?case by simp
qed

lemma initializePlugins_trace:
  "initializePluginsFrom fuel run i reg = Some (Returns u, reg') \<Longrightarrow>
   pluginCalls reg = take i (reg_plugins reg) \<Longrightarrow> i \<le> length (reg_plugins reg) \<Longrightarrow>
   pluginCalls reg' = reg_plugins reg' \<and> fastifyInitialized reg' = fastifyInitialized reg"
proof (induction fuel arbitrary: i reg)
  case 0
  then show ?case by simp
next
  case (Suc fuel)
  show ?case
  proof (cases "i < length (reg_plugins reg)")
    case False
    with Suc.prems show ?thesis by simp
  next
    case True
    obtain calls sig where r: "run (reg_plugins reg ! i) reg = (calls, sig)"
      by (cases "run (reg_plugins reg ! i) reg")
    let ?reg0 = "reg\<lparr>pluginCalls := pluginCalls reg @ [reg_plugins reg ! i]\<rparr>"
    let ?reg1 = "fold applyCall calls ?reg0"
    from fold_applyCall_frame [of calls ?reg0] obtain new where
      f: "reg_plugins ?reg1 = reg_plugins reg @ new"
         "pluginCalls ?reg1 = pluginCalls reg @ [reg_plugins reg ! i]"
         "fastifyInitialized ?reg1 = fastifyInitialized reg"
      by auto
    from Suc.prems(1) True r have rec: "initializePluginsFrom fuel run (Suc i) ?reg1 = Some (Returns u, reg')"
      by (auto simp: Let_def split: settle.splits)
    have tk: "pluginCalls ?reg1 = take (Suc i) (reg_plugins ?reg1)"
      using f Suc.prems(2) True by (simp add: take_Suc_conv_app_nth)
    have le: "Suc i \<le> length (reg_plugins ?reg1)"
      using f True by simp
    from Suc.IH [OF rec tk le] f show ?thesis by simp
  qed
qed

lemma listen_after_success:
  "fastifyInitialized reg \<Longrightarrow> listen fuel run reg = Some (Returns (), reg\<lparr>servers := Suc (servers reg)\<rparr>)"
  by (simp add: listen_def initializeFastifyPlugins_def)

lemma fold_applyCall_same_plugins:
  "list_all registersNothing cs \<Longrightarrow> reg_plugins (fold applyCall cs reg) = reg_plugins reg"
proof (induction cs arbitrary: reg)
  case Nil
  show ?case by simp
next
  case (Cons c cs)
  then have "reg_plugins (applyCall c reg) = reg_plugins reg"
    by (cases c) (auto simp: registersNothing_def)
  with Cons show ?case by simp
qed

lemma initializePlugins_enough_fuel:
  "(\<And>p r. list_all registersNothing (fst (run p r))) \<Longrightarrow>
   length (reg_plugins reg) - i < fuel \<Longrightarrow> initializePluginsFrom fuel run i reg \<noteq> None"
proof (induction fuel arbitrary: i reg)
  case 0
  then show ?case by simp
next
  case (Suc fuel)
  show ?case
  proof (cases "i < length (reg_plugins reg)")
    case False
    then show ?thesis by simp
  next
    case True
    obtain calls sig where r: "run (reg_plugins reg ! i) reg = (calls, sig)"
      by (cases "run (reg_plugins reg ! i) reg")
    let ?reg1 = "fold applyCall calls (reg\<lparr>pluginCalls := pluginCalls reg @ [reg_plugins reg ! i]\<rparr>)"
    have "list_all registersNothing calls"
      using Suc.prems(1) [of "reg_plugins reg ! i" reg] r by simp
    then have same: "reg_plugins ?reg1 = reg_plugins reg"
      by (simp add: fold_applyCall_same_plugins)
    have "length (reg_plugins ?reg1) - Suc i < fuel"
      using same Suc.prems(2) True by simp
    from Suc.IH [OF Suc.prems(1) this] have "initializePluginsFrom fuel run (Suc i) ?reg1 \<noteq> None" .
    with True r show ?thesis
      by (cases "pluginOutcome sig") (simp_all add: Let_def)
  qed
qed

text \<open>
  C10 (as stated, refuted). Plugin 1 adds a hook and plugin 2 fails. The first \<^verbatim>\<open>listen\<close>
  is rejected and leaves \<^verbatim>\<open>fastifyInitialized\<close> unset, so the second \<^verbatim>\<open>listen\<close> calls
  both plugins again: plugin 1 has run twice and its hook stands twice in the registry.
\<close>

theorem listen_again_after_failed_plugin_counterexample:
  "(case listen 5 failingSecond (newRegistry [1, 2]) of
      Some (Throws e, reg1) \<Rightarrow>
        pluginCalls reg1 = [1, 2] \<and> reg_hooks reg1 OnRequest = [''logger''] \<and> \<not> fastifyInitialized reg1
        \<and> (case listen 5 failingSecond reg1 of
             Some (Throws e', reg2) \<Rightarrow>
               pluginCalls reg2 = [1, 2, 1, 2] \<and> reg_hooks reg2 OnRequest = [''logger'', ''logger'']
           | _ \<Rightarrow> False)
    | _ \<Rightarrow> False)"
  by code_simp

text \<open>
  C10 (amended). When a \<^verbatim>\<open>listen\<close> call on a fresh adapter returns, every registered
  plugin, those registered by plugins included, has been called exactly once and in
  registration order, the flag is set, and every later \<^verbatim>\<open>listen\<close> call leaves hooks,
  decorators, routes and plugins as they are (it only starts a server again). Once the flag
  is set the initialisation is a no-op. When no plugin registers a plugin, the loop ends
  within as many steps as there are plugins.
\<close>

theorem plugin_initialization_once_after_success:
  "(\<not> fastifyInitialized reg \<and> pluginCalls reg = [] \<and> listen fuel run reg = Some (Returns u, reg') \<longrightarrow>
      fastifyInitialized reg' \<and> pluginCalls reg' = reg_plugins reg'
      \<and> (\<forall>fuel'. listen fuel' run reg' = Some (Returns (), reg'\<lparr>servers := Suc (servers reg')\<rparr>)))
   \<and> (fastifyInitialized reg \<longrightarrow> initializeFastifyPlugins fuel run reg = Some (Returns (), reg))
   \<and> ((\<forall>p r. list_all registersNothing (fst (run p r))) \<longrightarrow>
        listen (Suc (length (reg_plugins reg))) run reg \<noteq> None)"
proof -
  have P1: "fastifyInitialized reg' \<and> pluginCalls reg' = reg_plugins reg'
      \<and> (\<forall>fuel'. listen fuel' run reg' = Some (Returns (), reg'\<lparr>servers := Suc (servers reg')\<rparr>))"
    if a: "\<not> fastifyInitialized reg \<and> pluginCalls reg = [] \<and> listen fuel run reg = Some (Returns u, reg')"
  proof -
    from a obtain r1 where i1: "initializeFastifyPlugins fuel run reg = Some (Returns (), r1)"
        and r1: "reg' = r1\<lparr>servers := Suc (servers r1)\<rparr>"
      by (auto simp: listen_def split: option.splits prod.splits settle.splits)
    from i1 a obtain r0 where i0: "initializePluginsFrom fuel run 0 reg = Some (Returns (), r0)"
        and r0: "r1 = r0\<lparr>fastifyInitialized := True\<rparr>"
      by (auto simp: initializeFastifyPlugins_def split: option.splits prod.splits settle.splits)
    from a have "pluginCalls reg = take 0 (reg_plugins reg)" by simp
    from initializePlugins_trace [OF i0 this] have "pluginCalls r0 = reg_plugins r0" by simp
    with r0 r1 have 1: "fastifyInitialized reg'" and 2: "pluginCalls reg' = reg_plugins reg'"
      by simp_all
    from 1 have 3: "\<forall>fuel'. listen fuel' run reg' = Some (Returns (), reg'\<lparr>servers := Suc (servers reg')\<rparr>)"
      by (simp add: listen_after_success)
    from 1 2 3 show ?thesis
      by blast
  qed
  have P2: "initializeFastifyPlugins fuel run reg = Some (Returns (), reg)" if "fastifyInitialized reg"
    using that by (simp add: initializeFastifyPlugins_def)
  have P3: "listen (Suc (length (reg_plugins reg))) run reg \<noteq> None"
    if n: "\<forall>p r. list_all registersNothing (fst (run p r))"
  proof -
    have "initializePluginsFrom (Suc (length (reg_plugins reg))) run 0 reg \<noteq> None"
      using n by (intro initializePlugins_enough_fuel) simp_all
    then show ?thesis
      by (auto simp: listen_def initializeFastifyPlugins_def split: option.splits prod.splits settle.splits)
  qed
  from P1 P2 P3 show ?thesis
    by blast
qed

theorem plugin_initialization_once_after_success_witness:
  "\<exists>reg'. listen 10 nesting (newRegistry [1, 2]) = Some (Returns (), reg')
     \<and> reg_plugins reg' = [1, 2, 3] \<and> pluginCalls reg' = [1, 2, 3]
     \<and> reg_hooks reg' OnRequest = [''logger'']
     \<and> listen 10 nesting reg' = Some (Returns (), reg'\<lparr>servers := Suc (servers reg')\<rparr>)"
proof -
  have "case listen 10 nesting (newRegistry [1, 2]) of
          Some (Returns u, reg') \<Rightarrow> reg_plugins reg' = [1, 2, 3] \<and> reg_hooks reg' OnRequest = [''logger'']
        | _ \<Rightarrow> False"
    by code_simp
  then obtain reg' where l: "listen 10 nesting (newRegistry [1, 2]) = Some (Returns (), reg')"
      and p: "reg_plugins reg' = [1, 2, 3]" and h: "reg_hooks reg' OnRequest = [''logger'']"
    by (auto split: option.splits prod.splits settle.splits)
  have pre: "\<not> fastifyInitialized (newRegistry [1, 2] :: (nat, string, jsval) registry)
             \<and> pluginCalls (newRegistry [1, 2] :: (nat, string, jsval) registry) = []"
    by (simp add: newRegistry_def)
  from plugin_initialization_once_after_success
         [where reg = "newRegistry [1, 2]" and fuel = 10 and run = nesting and u = "()" and reg' = reg'] pre l
  have "fastifyInitialized reg' \<and> pluginCalls reg' = reg_plugins reg'
      \<and> (\<forall>fuel'. listen fuel' nesting reg' = Some (Returns (), reg'\<lparr>servers := Suc (servers reg')\<rparr>))"
    by blast
  with l p h show ?thesis
    by auto
qed

end
